theory Spec2Isabelle
  imports Main "HOL-Library.AList"
begin


section \<open>Strings\<close>

text \<open>
  The program is JavaScript. A JavaScript string is a sequence of 16-bit code units; the
  model uses \<open>string\<close> (a list of 8-bit characters), so it covers the strings whose code
  units lie in the Latin-1 range, and \<open>length\<close> counts code units as \<open>.length\<close> does.
  The functions below are the string built-ins the source calls, restricted to that range.
\<close>

definition isWhiteSpace :: "char \<Rightarrow> bool" where
  \<comment> \<open>the white space and line terminators that \<open>String.prototype.trim\<close> strips\<close>
  "isWhiteSpace c =
     (c \<in> set [CHR 0x09, CHR 0x0A, CHR 0x0B, CHR 0x0C, CHR 0x0D, CHR 0x20, CHR 0xA0])"

definition trim :: "string \<Rightarrow> string" where
  "trim s = rev (dropWhile isWhiteSpace (rev (dropWhile isWhiteSpace s)))"

definition toLowerChar :: "char \<Rightarrow> char" where
  "toLowerChar c =
     (let n = (of_char c :: nat)
      in if (65 \<le> n \<and> n \<le> 90) \<or> (192 \<le> n \<and> n \<le> 222 \<and> n \<noteq> 215)
         then char_of (n + 32) else c)"

definition toLowerCase :: "string \<Rightarrow> string" where
  "toLowerCase s = map toLowerChar s"

fun join :: "string \<Rightarrow> string list \<Rightarrow> string" where
  "join sep [] = []"
| "join sep [x] = x"
| "join sep (x # y # ys) = x @ sep @ join sep (y # ys)"

definition startsWith :: "string \<Rightarrow> string \<Rightarrow> bool" where
  "startsWith s q = (take (length q) s = q)"

fun includes_str :: "string \<Rightarrow> string \<Rightarrow> bool" where
  "includes_str [] q = (q = [])"
| "includes_str (c # s) q = (startsWith (c # s) q \<or> includes_str s q)"

definition isDigit :: "char \<Rightarrow> bool" where
  "isDigit c = (let n = (of_char c :: nat) in 48 \<le> n \<and> n \<le> 57)"

definition digit :: "nat \<Rightarrow> char" where
  "digit d = ''0123456789'' ! d"

fun show_nat :: "nat \<Rightarrow> string" where
  \<comment> \<open>the decimal digits of a number, as a template literal prints it\<close>
  "show_nat n = (if n < 10 then [digit n] else show_nat (n div 10) @ [digit (n mod 10)])"

declare show_nat.simps [simp del]

definition quote :: string where
  "quote = [CHR 0x27]"

section \<open>The Prompt model\<close>

text \<open>
  \<open>class Prompt\<close> (\<^verbatim>\<open>src/unnamed/part_000\<close>, lines 6 to 406): the fourteen instance fields
  set by the constructor. Field values have the types the application gives them
  (strings, an array of strings, a boolean).
\<close>

record Prompt =
  id' :: string
  title :: string
  type :: string
  prompt :: string
  negative_prompt :: string
  model :: string
  author :: string
  tags :: "string list"
  "notes" :: string
  version :: string
  created :: string
  modified :: string
  category :: string
  isFavorite :: bool

text \<open>
  A plain object with prompt fields: the argument of the constructor and of \<open>update\<close>,
  the result of \<open>toObject\<close>, the object handed to and returned by the YAML library.
  \<open>None\<close> is a property the object does not have.
\<close>

record PromptData =
  d_id :: "string option"
  d_title :: "string option"
  d_type :: "string option"
  d_prompt :: "string option"
  d_negative_prompt :: "string option"
  d_model :: "string option"
  d_author :: "string option"
  d_tags :: "string list option"
  d_notes :: "string option"
  d_version :: "string option"
  d_created :: "string option"
  d_modified :: "string option"
  d_category :: "string option"
  d_isFavorite :: "bool option"

definition no_data :: PromptData where
  \<comment> \<open>the empty object \<open>{}\<close>\<close>
  "no_data = \<lparr> d_id = None, d_title = None, d_type = None, d_prompt = None,
     d_negative_prompt = None, d_model = None, d_author = None, d_tags = None,
     d_notes = None, d_version = None, d_created = None, d_modified = None,
     d_category = None, d_isFavorite = None \<rparr>"

text \<open>
  What a call reads from outside the program: the clock, the random number generator and
  the engine's date parser.
\<close>

record env =
  date_now :: nat
    \<comment> \<open>\<open>Date.now()\<close>\<close>
  random36 :: string
    \<comment> \<open>\<open>Math.random().toString(36).substr(2, 9)\<close>\<close>
  today :: string
    \<comment> \<open>\<open>new Date().toISOString().split('T')[0]\<close>\<close>
  parses_as_date :: "string \<Rightarrow> bool"
    \<comment> \<open>whether \<open>new Date(s)\<close> is a valid date\<close>

type_synonym error = string
  \<comment> \<open>the message of a thrown \<open>Error\<close>\<close>

definition TYPES :: "string list" where
  \<comment> \<open>\<open>Object.values(Prompt.TYPES)\<close>\<close>
  "TYPES = [''text_generation'', ''image_generation'', ''code'', ''other'']"

definition generateId :: "env \<Rightarrow> string" where
  "generateId e = ''prompt-'' @ show_nat (date_now e) @ ''-'' @ random36 e"

definition isValidDate :: "env \<Rightarrow> string \<Rightarrow> bool" where
  "isValidDate e dateString = parses_as_date e dateString"

definition version_format :: "string \<Rightarrow> bool" where
  \<comment> \<open>the regular expression \<open>/^\d+\.\d+(\.\d+)?$/\<close>\<close>
  "version_format v =
     (let d1 = takeWhile isDigit v; r1 = dropWhile isDigit v
      in d1 \<noteq> [] \<and>
         (case r1 of
            [] \<Rightarrow> False
          | c1 # t1 \<Rightarrow>
              c1 = CHR ''.'' \<and>
              (let d2 = takeWhile isDigit t1; r2 = dropWhile isDigit t1
               in d2 \<noteq> [] \<and>
                  (case r2 of
                     [] \<Rightarrow> True
                   | c2 # t2 \<Rightarrow> c2 = CHR ''.'' \<and> t2 \<noteq> [] \<and> list_all isDigit t2))))"

definition required_missing :: "string \<Rightarrow> bool" where
  \<comment> \<open>\<open>!this[field] || (typeof this[field] === 'string' && this[field].trim() === '')\<close>\<close>
  "required_missing v = (v = [] \<or> trim v = [])"

definition required_error :: "string \<Rightarrow> string" where
  "required_error field = ''Field '' @ quote @ field @ quote @ '' is required''"

definition validation_errors :: "env \<Rightarrow> Prompt \<Rightarrow> string list" where
  \<comment> \<open>the array \<open>errors\<close> of \<open>validate\<close>; the check that \<open>tags\<close> is an array cannot fail
      on a list of strings\<close>
  "validation_errors e p =
     (if required_missing (title p) then [required_error ''title''] else []) @
     (if required_missing (type p) then [required_error ''type''] else []) @
     (if required_missing (prompt p) then [required_error ''prompt''] else []) @
     (if type p \<notin> set TYPES
      then [''Invalid type '' @ quote @ type p @ quote @ ''. Must be one of: '' @ join '', '' TYPES]
      else []) @
     (if title p \<noteq> [] \<and> length (title p) > 200
      then [''Title must be 200 characters or less''] else []) @
     (if prompt p \<noteq> [] \<and> length (prompt p) > 10000
      then [''Prompt must be 10000 characters or less''] else []) @
     (if length (tags p) > 20 then [''Maximum 20 tags allowed''] else []) @
     (if version p \<noteq> [] \<and> \<not> version_format (version p)
      then [''Version must be in format X.Y or X.Y.Z''] else []) @
     (if created p \<noteq> [] \<and> \<not> isValidDate e (created p)
      then [''Invalid created date format''] else []) @
     (if modified p \<noteq> [] \<and> \<not> isValidDate e (modified p)
      then [''Invalid modified date format''] else [])"

definition validate :: "env \<Rightarrow> Prompt \<Rightarrow> error + unit" where
  "validate e p =
     (let errors = validation_errors e p
      in if length errors > 0 then Inl (''Validation failed: '' @ join '', '' errors)
         else Inr ())"

definition or_else :: "string option \<Rightarrow> string \<Rightarrow> string" where
  \<comment> \<open>\<open>data.field || dflt\<close> on a string property: a missing or empty value is falsy\<close>
  "or_else v dflt = (case v of None \<Rightarrow> dflt | Some s \<Rightarrow> if s = [] then dflt else s)"

definition assign_fields :: "env \<Rightarrow> PromptData \<Rightarrow> Prompt" where
  \<comment> \<open>the assignments of the constructor, before it validates\<close>
  "assign_fields e data =
     \<lparr> id' = or_else (d_id data) (generateId e),
       title = or_else (d_title data) [],
       type = or_else (d_type data) ''text_generation'',
       prompt = or_else (d_prompt data) [],
       negative_prompt = or_else (d_negative_prompt data) [],
       model = or_else (d_model data) [],
       author = or_else (d_author data) [],
       tags = (case d_tags data of Some ts \<Rightarrow> ts | None \<Rightarrow> []),
       notes = or_else (d_notes data) [],
       version = or_else (d_version data) ''1.0'',
       created = or_else (d_created data) (today e),
       modified = or_else (d_modified data) (today e),
       category = or_else (d_category data) [],
       isFavorite = (case d_isFavorite data of Some b \<Rightarrow> b | None \<Rightarrow> False) \<rparr>"

definition new_Prompt :: "env \<Rightarrow> PromptData \<Rightarrow> error + Prompt" where
  \<comment> \<open>\<open>new Prompt(data)\<close>: the validation error propagates out of the constructor\<close>
  "new_Prompt e data =
     (let p = assign_fields e data
      in case validate e p of Inl msg \<Rightarrow> Inl msg | Inr _ \<Rightarrow> Inr p)"

definition assign_allowed :: "PromptData \<Rightarrow> Prompt \<Rightarrow> Prompt" where
  \<comment> \<open>the loop of \<open>update\<close> over \<open>allowedFields\<close>: a property the object has is assigned\<close>
  "assign_allowed data p =
     p \<lparr> title := (case d_title data of Some v \<Rightarrow> v | None \<Rightarrow> title p),
         type := (case d_type data of Some v \<Rightarrow> v | None \<Rightarrow> type p),
         prompt := (case d_prompt data of Some v \<Rightarrow> v | None \<Rightarrow> prompt p),
         negative_prompt :=
           (case d_negative_prompt data of Some v \<Rightarrow> v | None \<Rightarrow> negative_prompt p),
         model := (case d_model data of Some v \<Rightarrow> v | None \<Rightarrow> model p),
         author := (case d_author data of Some v \<Rightarrow> v | None \<Rightarrow> author p),
         tags := (case d_tags data of Some v \<Rightarrow> v | None \<Rightarrow> tags p),
         notes := (case d_notes data of Some v \<Rightarrow> v | None \<Rightarrow> notes p),
         version := (case d_version data of Some v \<Rightarrow> v | None \<Rightarrow> version p),
         category := (case d_category data of Some v \<Rightarrow> v | None \<Rightarrow> category p),
         isFavorite := (case d_isFavorite data of Some v \<Rightarrow> v | None \<Rightarrow> isFavorite p) \<rparr>"

definition update :: "env \<Rightarrow> PromptData \<Rightarrow> Prompt \<Rightarrow> (error + unit) \<times> Prompt" where
  \<comment> \<open>\<open>update(data)\<close> mutates the object in place and then validates: the result is what
      the call does (returns, or throws the message) and the object as the call leaves it\<close>
  "update e data p =
     (let p1 = assign_allowed data p;
          p2 = p1 \<lparr> modified := today e \<rparr>
      in (validate e p2, p2))"

definition toObject :: "Prompt \<Rightarrow> PromptData" where
  "toObject p =
     \<lparr> d_id = Some (id' p), d_title = Some (title p), d_type = Some (type p),
       d_prompt = Some (prompt p), d_negative_prompt = Some (negative_prompt p),
       d_model = Some (model p), d_author = Some (author p), d_tags = Some (tags p),
       d_notes = Some (notes p), d_version = Some (version p),
       d_created = Some (created p), d_modified = Some (modified p),
       d_category = Some (category p), d_isFavorite = Some (isFavorite p) \<rparr>"

definition clone :: "env \<Rightarrow> Prompt \<Rightarrow> error + Prompt" where
  \<comment> \<open>the template literal prints a missing title as \<open>undefined\<close>; \<open>toObject\<close> always
      sets one\<close>
  "clone e p =
     (let data = toObject p;
          data1 = data \<lparr> d_id := None \<rparr>;
          data2 = data1 \<lparr> d_title :=
                    Some ((case d_title data1 of Some t \<Rightarrow> t | None \<Rightarrow> ''undefined'') @
                          '' (Copy)'') \<rparr>
      in new_Prompt e data2)"

definition unless_empty :: "string \<Rightarrow> string option" where
  \<comment> \<open>a key of \<open>yamlData\<close> is deleted when its value \<open>=== ''\<close>\<close>
  "unless_empty v = (if v = [] then None else Some v)"

definition yamlData :: "Prompt \<Rightarrow> PromptData" where
  \<comment> \<open>the object \<open>toYAML\<close> builds and prunes: eleven keys, the empty ones deleted\<close>
  "yamlData p =
     \<lparr> d_id = None,
       d_title = unless_empty (title p),
       d_type = unless_empty (type p),
       d_prompt = unless_empty (prompt p),
       d_negative_prompt = unless_empty (negative_prompt p),
       d_model = unless_empty (model p),
       d_author = unless_empty (author p),
       d_tags = (if length (tags p) = 0 then None else Some (tags p)),
       d_notes = unless_empty (notes p),
       d_version = unless_empty (version p),
       d_created = unless_empty (created p),
       d_modified = unless_empty (modified p),
       d_category = None,
       d_isFavorite = None \<rparr>"

text \<open>
  \<open>jsyaml.dump\<close> and \<open>jsyaml.load\<close> belong to the js-yaml library, which is not part of the
  repository: they are parameters \<open>dump\<close> and \<open>load\<close> (\<open>load\<close> may throw).
\<close>

definition toYAML :: "(PromptData \<Rightarrow> string) \<Rightarrow> Prompt \<Rightarrow> string" where
  "toYAML dump p = dump (yamlData p)"

definition spread :: "PromptData \<Rightarrow> PromptData \<Rightarrow> PromptData" where
  \<comment> \<open>the object literal \<open>{ ...a, ...b }\<close>: a property of \<open>b\<close> wins\<close>
  "spread a b =
     \<lparr> d_id = (case d_id b of Some v \<Rightarrow> Some v | None \<Rightarrow> d_id a),
       d_title = (case d_title b of Some v \<Rightarrow> Some v | None \<Rightarrow> d_title a),
       d_type = (case d_type b of Some v \<Rightarrow> Some v | None \<Rightarrow> d_type a),
       d_prompt = (case d_prompt b of Some v \<Rightarrow> Some v | None \<Rightarrow> d_prompt a),
       d_negative_prompt =
         (case d_negative_prompt b of Some v \<Rightarrow> Some v | None \<Rightarrow> d_negative_prompt a),
       d_model = (case d_model b of Some v \<Rightarrow> Some v | None \<Rightarrow> d_model a),
       d_author = (case d_author b of Some v \<Rightarrow> Some v | None \<Rightarrow> d_author a),
       d_tags = (case d_tags b of Some v \<Rightarrow> Some v | None \<Rightarrow> d_tags a),
       d_notes = (case d_notes b of Some v \<Rightarrow> Some v | None \<Rightarrow> d_notes a),
       d_version = (case d_version b of Some v \<Rightarrow> Some v | None \<Rightarrow> d_version a),
       d_created = (case d_created b of Some v \<Rightarrow> Some v | None \<Rightarrow> d_created a),
       d_modified = (case d_modified b of Some v \<Rightarrow> Some v | None \<Rightarrow> d_modified a),
       d_category = (case d_category b of Some v \<Rightarrow> Some v | None \<Rightarrow> d_category a),
       d_isFavorite =
         (case d_isFavorite b of Some v \<Rightarrow> Some v | None \<Rightarrow> d_isFavorite a) \<rparr>"

definition fromYAML ::
  "(string \<Rightarrow> error + PromptData) \<Rightarrow> env \<Rightarrow> string \<Rightarrow> PromptData \<Rightarrow> error + Prompt" where
  \<comment> \<open>the \<open>try\<close> block covers the parser and the constructor\<close>
  "fromYAML load e yamlString metadata =
     (case load yamlString of
        Inl msg \<Rightarrow> Inl (''Failed to parse YAML: '' @ msg)
      | Inr data \<Rightarrow>
          (case new_Prompt e (spread data metadata) of
             Inl msg \<Rightarrow> Inl (''Failed to parse YAML: '' @ msg)
           | Inr p \<Rightarrow> Inr p))"

definition getTagsString :: "Prompt \<Rightarrow> string" where
  "getTagsString p = join '', '' (tags p)"

definition getSearchRelevance :: "Prompt \<Rightarrow> string \<Rightarrow> nat" where
  "getSearchRelevance p query =
     (if query = [] \<or> trim query = [] then 0
      else
        let searchText = toLowerCase query;
            score0 = 0;
            score1 =
              (if includes_str (toLowerCase (title p)) searchText
               then (score0 + 50) +
                    (if startsWith (toLowerCase (title p)) searchText then 25 else 0)
               else score0);
            score2 =
              (if includes_str (toLowerCase (prompt p)) searchText then score1 + 20 else score1);
            score3 =
              (if includes_str (toLowerCase (getTagsString p)) searchText
               then score2 + 15 else score2);
            score4 =
              fold (\<lambda>field score.
                      if field \<noteq> [] \<and> includes_str (toLowerCase field) searchText
                      then score + 5 else score)
                   [notes p, author p, model p] score3
        in min score4 100)"

section \<open>The storage manager\<close>

text \<open>
  \<open>class StorageManager\<close> (\<^verbatim>\<open>src/unnamed/part_000\<close>, lines 416 to 956) keeps four
  collections in memory and writes them to the browser's \<open>localStorage\<close>. A JavaScript
  \<open>Map\<close> is an association list in insertion order (\<open>set\<close> is \<open>AList.update\<close>, \<open>delete\<close> is
  \<open>AList.delete\<close>, \<open>has\<close> and \<open>get\<close> are \<open>map_of\<close>), a \<open>Set\<close> is a list in insertion order.
\<close>

record CategoryInfo =
  cat_name :: string
  icon :: string
  color :: string

datatype setting = SString string | SBool bool | SNumber int | SArray "string list"

type_synonym settings_object = "(string \<times> setting) list"

record BackupData =
  b_prompts :: "PromptData list"
  b_categories :: "(string \<times> CategoryInfo) list"
  b_favorites :: "string list"
  b_settings :: settings_object

record Backup =
  b_timestamp :: string
  b_version :: string
  b_data :: BackupData

text \<open>
  \<open>localStorage\<close>: the five slots of \<open>STORAGE_KEYS\<close>, each holding the value whose JSON
  text is stored (\<open>None\<close>: no item, or text that \<open>getFromStorage\<close> cannot parse and
  answers with \<open>null\<close>). \<open>setItem\<close> can throw; \<open>ls_setItem\<close> lists how the coming calls of
  \<open>setItem\<close> end, in order, and a call beyond the list stores its value.
\<close>

datatype setItem_result = Stored | QuotaExceededError | OtherError

record LocalStorage =
  ls_prompts :: "PromptData list option"
  ls_categories :: "(string \<times> CategoryInfo) list option"
  ls_favorites :: "string list option"
  ls_settings :: "settings_object option"
  ls_backup :: "Backup list option"
  ls_setItem :: "setItem_result list"

record StorageManager =
  prompts :: "(string \<times> Prompt) list"
  categories :: "(string \<times> CategoryInfo) list"
  favorites :: "string list"
  settings :: settings_object
  store :: LocalStorage

datatype item =
    PROMPTS "PromptData list"
  | CATEGORIES "(string \<times> CategoryInfo) list"
  | FAVORITES "string list"
  | SETTINGS settings_object
  | BACKUP "Backup list"

definition MAX_BACKUPS :: nat where
  "MAX_BACKUPS = 5"

definition setItem :: "item \<Rightarrow> LocalStorage \<Rightarrow> LocalStorage" where
  \<comment> \<open>a call of \<open>localStorage.setItem\<close> that does not throw\<close>
  "setItem v ls =
     (case v of
        PROMPTS x \<Rightarrow> ls \<lparr> ls_prompts := Some x \<rparr>
      | CATEGORIES x \<Rightarrow> ls \<lparr> ls_categories := Some x \<rparr>
      | FAVORITES x \<Rightarrow> ls \<lparr> ls_favorites := Some x \<rparr>
      | SETTINGS x \<Rightarrow> ls \<lparr> ls_settings := Some x \<rparr>
      | BACKUP x \<Rightarrow> ls \<lparr> ls_backup := Some x \<rparr>)"

definition getBackups :: "LocalStorage \<Rightarrow> Backup list" where
  \<comment> \<open>\<open>this.getFromStorage(StorageManager.STORAGE_KEYS.BACKUP) || []\<close>\<close>
  "getBackups ls = (case ls_backup ls of Some bs \<Rightarrow> bs | None \<Rightarrow> [])"

text \<open>
  \<open>saveToStorage\<close> catches what \<open>setItem\<close> throws and calls \<open>handleStorageError\<close>, which
  on a \<open>QuotaExceededError\<close> calls \<open>cleanupOldBackups\<close>, which saves again. The toast that
  \<open>handleStorageError\<close> shows is not part of the state.
\<close>

function saveToStorage :: "item \<Rightarrow> LocalStorage \<Rightarrow> LocalStorage"
  and cleanupOldBackups :: "LocalStorage \<Rightarrow> LocalStorage" where
  "saveToStorage v ls =
     (case ls_setItem ls of
        [] \<Rightarrow> setItem v ls
      | r # rs \<Rightarrow>
          (case r of
             Stored \<Rightarrow> setItem v (ls \<lparr> ls_setItem := rs \<rparr>)
           | QuotaExceededError \<Rightarrow> cleanupOldBackups (ls \<lparr> ls_setItem := rs \<rparr>)
           | OtherError \<Rightarrow> ls \<lparr> ls_setItem := rs \<rparr>))"
| "cleanupOldBackups ls =
     (let backups = getBackups ls;
          trimmedBackups = take (MAX_BACKUPS div 2) backups
      in saveToStorage (BACKUP trimmedBackups) ls)"
  by pat_completeness auto
termination
  by (relation "measure (\<lambda>x. case x of
         Inl (v, ls) \<Rightarrow> 2 * length (ls_setItem ls) + 1
       | Inr ls \<Rightarrow> 2 * length (ls_setItem ls) + 2)") auto

declare saveToStorage.simps [simp del]
declare cleanupOldBackups.simps [simp del]

definition savePrompts :: "StorageManager \<Rightarrow> StorageManager" where
  "savePrompts st =
     st \<lparr> store := saveToStorage (PROMPTS (map (\<lambda>kv. toObject (snd kv)) (prompts st))) (store st) \<rparr>"

definition saveCategories :: "StorageManager \<Rightarrow> StorageManager" where
  "saveCategories st = st \<lparr> store := saveToStorage (CATEGORIES (categories st)) (store st) \<rparr>"

definition saveFavorites :: "StorageManager \<Rightarrow> StorageManager" where
  "saveFavorites st = st \<lparr> store := saveToStorage (FAVORITES (favorites st)) (store st) \<rparr>"

definition saveSettings :: "StorageManager \<Rightarrow> StorageManager" where
  "saveSettings st = st \<lparr> store := saveToStorage (SETTINGS (settings st)) (store st) \<rparr>"

definition saveAll :: "StorageManager \<Rightarrow> StorageManager" where
  "saveAll st = saveSettings (saveFavorites (saveCategories (savePrompts st)))"

definition getDefaultSettings :: settings_object where
  "getDefaultSettings =
     [(''theme'', SString ''light''), (''autoSave'', SBool True),
      (''backupEnabled'', SBool True), (''searchDebounce'', SNumber 300),
      (''itemsPerPage'', SNumber 50), (''defaultCategory'', SString ''general''),
      (''sortBy'', SString ''modified''), (''sortOrder'', SString ''desc'')]"

definition spread_object :: "('k \<times> 'v) list \<Rightarrow> ('k \<times> 'v) list \<Rightarrow> ('k \<times> 'v) list" where
  \<comment> \<open>\<open>{ ...a, ...b }\<close> on objects with any keys, and a loop of \<open>Map.set\<close> over entries\<close>
  "spread_object a b = fold (\<lambda>kv acc. AList.update (fst kv) (snd kv) acc) b a"

definition set_add :: "'a \<Rightarrow> 'a list \<Rightarrow> 'a list" where
  \<comment> \<open>\<open>Set.prototype.add\<close>\<close>
  "set_add x xs = (if x \<in> set xs then xs else xs @ [x])"

definition new_Set :: "'a list \<Rightarrow> 'a list" where
  \<comment> \<open>\<open>new Set(array)\<close>\<close>
  "new_Set xs = fold set_add xs []"

definition createBackup :: "string \<Rightarrow> StorageManager \<Rightarrow> StorageManager" where
  \<comment> \<open>\<open>now\<close> is \<open>new Date().toISOString()\<close>. Nothing inside the \<open>try\<close> block throws on
      these types, so its \<open>catch\<close> has no branch here.\<close>
  "createBackup now st =
     (let backup =
            \<lparr> b_timestamp = now, b_version = ''1.0'',
              b_data = \<lparr> b_prompts = map (\<lambda>kv. toObject (snd kv)) (prompts st),
                         b_categories = categories st,
                         b_favorites = favorites st,
                         b_settings = settings st \<rparr> \<rparr>;
          backups = getBackups (store st);
          backups1 = backup # backups;
          trimmedBackups = take MAX_BACKUPS backups1
      in st \<lparr> store := saveToStorage (BACKUP trimmedBackups) (store st) \<rparr>)"

text \<open>
  Loops that construct prompts read the clock and the random number generator once per
  constructor call: \<open>envs i\<close> is what the call for the element at index \<open>i\<close> reads.
\<close>

fun restorePrompts ::
  "(nat \<Rightarrow> env) \<Rightarrow> nat \<Rightarrow> PromptData list \<Rightarrow> (string \<times> Prompt) list
     \<Rightarrow> bool \<times> (string \<times> Prompt) list" where
  \<comment> \<open>the \<open>forEach\<close> of \<open>restoreFromBackup\<close>: \<open>False\<close> when a constructor threw, with the
      map as the loop left it\<close>
  "restorePrompts envs i [] m = (True, m)"
| "restorePrompts envs i (promptData # rest) m =
     (case new_Prompt (envs i) promptData of
        Inl msg \<Rightarrow> (False, m)
      | Inr p \<Rightarrow> restorePrompts envs (Suc i) rest (AList.update (id' p) p m))"

definition restoreFromBackup ::
  "(nat \<Rightarrow> env) \<Rightarrow> int \<Rightarrow> StorageManager \<Rightarrow> bool \<times> StorageManager" where
  \<comment> \<open>every exception is caught inside and turned into the result \<open>false\<close>. An index at or
      beyond the length throws \<open>Backup not found\<close>; a negative index reads \<open>undefined\<close>,
      whose destructuring throws.\<close>
  "restoreFromBackup envs backupIndex st =
     (let backups = getBackups (store st)
      in if backupIndex \<ge> int (length backups) then (False, st)
         else if backupIndex < 0 then (False, st)
         else
           let dat = b_data (backups ! nat backupIndex)
           in case restorePrompts envs 0 (b_prompts dat) [] of
                (False, m) \<Rightarrow> (False, st \<lparr> prompts := m \<rparr>)
              | (True, m) \<Rightarrow>
                  (True,
                   saveAll (st \<lparr> prompts := m,
                                categories := b_categories dat,
                                favorites := new_Set (b_favorites dat),
                                settings := spread_object getDefaultSettings (b_settings dat) \<rparr>)))"

definition clearAll :: "StorageManager \<Rightarrow> StorageManager" where
  \<comment> \<open>\<open>localStorage.removeItem\<close> for each of the five keys\<close>
  "clearAll st =
     st \<lparr> prompts := [], categories := [], favorites := [], settings := getDefaultSettings,
          store := (store st) \<lparr> ls_prompts := None, ls_categories := None,
                                ls_favorites := None, ls_settings := None,
                                ls_backup := None \<rparr> \<rparr>"

record ImportResult =
  imported :: nat
  skipped :: nat
  errors :: "string list"

text \<open>
  The parsed import: the properties \<open>importData\<close> reads, \<open>None\<close> where the object has
  none (or one of another shape, which the guards skip as well). A parser can also return
  \<open>undefined\<close> or \<open>null\<close>, which have no properties to read.
\<close>

record ParsedData =
  i_prompts :: "PromptData list option"
  i_categories :: "(string \<times> CategoryInfo) list option"
  i_favorites :: "string list option"
  i_settings :: "settings_object option"

datatype parsed = Undefined | Null | Parsed ParsedData

definition importPrompt ::
  "bool \<Rightarrow> env \<Rightarrow> PromptData \<Rightarrow> (string \<times> Prompt) list \<times> ImportResult
     \<Rightarrow> (string \<times> Prompt) list \<times> ImportResult" where
  \<comment> \<open>the body of the \<open>forEach\<close> over \<open>parsedData.prompts\<close>\<close>
  "importPrompt merge e promptData acc =
     (let m = fst acc; result = snd acc
      in case new_Prompt e promptData of
           Inl msg \<Rightarrow>
             (m, result \<lparr> errors := errors result @ [''Failed to import prompt: '' @ msg] \<rparr>)
         | Inr p \<Rightarrow>
             if \<not> merge \<or> map_of m (id' p) = None
             then (AList.update (id' p) p m, result \<lparr> imported := imported result + 1 \<rparr>)
             else (m, result \<lparr> skipped := skipped result + 1 \<rparr>))"

fun importPrompts ::
  "bool \<Rightarrow> (nat \<Rightarrow> env) \<Rightarrow> nat \<Rightarrow> PromptData list \<Rightarrow> (string \<times> Prompt) list \<times> ImportResult
     \<Rightarrow> (string \<times> Prompt) list \<times> ImportResult" where
  "importPrompts merge envs i [] acc = acc"
| "importPrompts merge envs i (promptData # rest) acc =
     importPrompts merge envs (Suc i) rest (importPrompt merge (envs i) promptData acc)"

definition parse_import ::
  "(string \<Rightarrow> error + parsed) \<Rightarrow> (string \<Rightarrow> error + parsed)
     \<Rightarrow> string \<Rightarrow> string \<Rightarrow> error + parsed" where
  \<comment> \<open>the choice of parser by \<open>format\<close>; \<open>JSON.parse\<close> and \<open>jsyaml.load\<close> are parameters,
      they can throw, and they can return \<open>null\<close> or \<open>undefined\<close>. Another format leaves
      \<open>parsedData\<close> undefined.\<close>
  "parse_import json_parse yaml_load text format =
     (if format = ''auto''
      then (case json_parse text of Inr d \<Rightarrow> Inr d | Inl msg \<Rightarrow> yaml_load text)
      else if format = ''json'' then json_parse text
      else if format = ''yaml'' then yaml_load text
      else Inr Undefined)"

definition cannot_read_prompts :: "string \<Rightarrow> string" where
  \<comment> \<open>the message of the \<open>TypeError\<close> for \<open>parsedData.prompts\<close> on \<open>undefined\<close> or \<open>null\<close>,
      in the wording of V8; other engines word it differently\<close>
  "cannot_read_prompts v =
     ''Cannot read properties of '' @ v @ '' (reading '' @ quote @ ''prompts'' @ quote @ '')''"

definition importData ::
  "(string \<Rightarrow> error + parsed) \<Rightarrow> (string \<Rightarrow> error + parsed)
     \<Rightarrow> (nat \<Rightarrow> env) \<Rightarrow> string \<Rightarrow> string \<Rightarrow> bool \<Rightarrow> StorageManager
     \<Rightarrow> (error + ImportResult) \<times> StorageManager" where
  \<comment> \<open>the result, or the message of the error thrown, and the manager as the call leaves
      it\<close>
  "importData json_parse yaml_load envs text format merge st =
     (case parse_import json_parse yaml_load text format of
        Inl msg \<Rightarrow> (Inl (''Failed to import data: '' @ msg), st)
      | Inr parsedData \<Rightarrow>
          let result0 = \<lparr> imported = 0, skipped = 0, errors = [] \<rparr>;
              st1 = (if \<not> merge then clearAll st else st)
          in case parsedData of
               Undefined \<Rightarrow>
                 (Inl (''Failed to import data: '' @ cannot_read_prompts ''undefined''), st1)
             | Null \<Rightarrow>
                 (Inl (''Failed to import data: '' @ cannot_read_prompts ''null''), st1)
             | Parsed pd \<Rightarrow>
                 let acc = (case i_prompts pd of
                              Some ds \<Rightarrow> importPrompts merge envs 0 ds (prompts st1, result0)
                            | None \<Rightarrow> (prompts st1, result0));
                     st2 = st1 \<lparr> prompts := fst acc \<rparr>;
                     st3 = (case i_categories pd of
                              Some cs \<Rightarrow> st2 \<lparr> categories := spread_object (categories st2) cs \<rparr>
                            | None \<Rightarrow> st2);
                     st4 = (case i_favorites pd of
                              Some fs \<Rightarrow> st3 \<lparr> favorites := fold set_add fs (favorites st3) \<rparr>
                            | None \<Rightarrow> st3);
                     st5 = (case i_settings pd of
                              Some s \<Rightarrow> st4 \<lparr> settings := spread_object (settings st4) s \<rparr>
                            | None \<Rightarrow> st4)
                 in (Inr (snd acc), saveAll st5))"

section \<open>The tree view\<close>

text \<open>
  \<open>class TreeView\<close> (\<^verbatim>\<open>src/js/views/tree-view.js\<close>): \<open>deletePrompt\<close> (lines 899 to 920)
  and \<open>buildTreeStructure\<close> (lines 129 to 177), both on the storage manager the view
  holds in \<open>this.storage\<close>.
\<close>

definition deletePrompt :: "bool \<Rightarrow> string \<Rightarrow> StorageManager \<Rightarrow> StorageManager" where
  \<comment> \<open>\<open>TreeView.deletePrompt\<close> on \<open>this.storage\<close>; \<open>confirmed\<close> is the answer of the
      \<open>confirm\<close> dialog. Rendering, the selection and the toast are not part of the
      storage manager's state.\<close>
  "deletePrompt confirmed promptId st =
     (case map_of (prompts st) promptId of
        None \<Rightarrow> st
      | Some p \<Rightarrow>
          if confirmed
          then saveFavorites (savePrompts
                 (st \<lparr> prompts := AList.delete promptId (prompts st),
                       favorites := removeAll promptId (favorites st) \<rparr>))
          else st)"

text \<open>
  \<open>buildTreeStructure\<close> builds \<open>tree.categories\<close> as a plain object and reads it with
  \<open>tree.categories[key]\<close>, which also finds what the object inherits. \<open>t_categories\<close> are
  the object's own properties. Assigning the key \<open>__proto__\<close> sets the object's prototype
  instead of a property: \<open>t_prototype\<close> is the entry assigned so. A read then finds, in
  order, an own property, the properties of that entry (\<open>info\<close>, \<open>items\<close>, \<open>children\<close>, and
  \<open>parent\<close>, which is \<open>null\<close> there), and the properties of \<open>Object.prototype\<close>.
  \<open>t_categories\<close> lists the own properties in the order of their first assignment
  (JavaScript enumerates keys that are array indices before the others; no path with a
  \<open>/\<close> is one, so the order in which the second loop fills \<open>children\<close> is the same).
\<close>

record TreeEntry =
  info :: CategoryInfo
  items :: "Prompt list"
  parent :: "string option"
  children :: "string list"

record Tree =
  t_categories :: "(string \<times> TreeEntry) list"
  t_prototype :: "TreeEntry option"
  t_favorites :: "Prompt list"
  t_uncategorized :: "Prompt list"

datatype js_error = TypeError

datatype property = Own TreeEntry | Inherited TreeEntry | Truthy | Falsy

definition object_prototype_keys :: "string list" where
  "object_prototype_keys =
     [''constructor'', ''__defineGetter__'', ''__defineSetter__'', ''hasOwnProperty'',
      ''__lookupGetter__'', ''__lookupSetter__'', ''isPrototypeOf'',
      ''propertyIsEnumerable'', ''toString'', ''valueOf'', ''__proto__'',
      ''toLocaleString'']"

definition get_category :: "Tree \<Rightarrow> string \<Rightarrow> property" where
  \<comment> \<open>\<open>tree.categories[key]\<close>: an entry, or another value by its truthiness\<close>
  "get_category t key =
     (case map_of (t_categories t) key of
        Some entry \<Rightarrow> Own entry
      | None \<Rightarrow>
          (case t_prototype t of
             Some entry \<Rightarrow>
               if key = ''__proto__'' then Inherited entry
               else if key \<in> set [''info'', ''items'', ''children''] then Truthy
               else if key = ''parent'' then Falsy
               else if key \<in> set object_prototype_keys then Truthy else Falsy
           | None \<Rightarrow> if key \<in> set object_prototype_keys then Truthy else Falsy))"

definition lastIndexOf_slash :: "string \<Rightarrow> nat" where
  \<comment> \<open>\<open>path.lastIndexOf('/')\<close> on a path that includes \<open>/\<close>\<close>
  "lastIndexOf_slash path =
     length path - Suc (length (takeWhile (\<lambda>c. c \<noteq> CHR ''/'') (rev path)))"

definition parent_path :: "string \<Rightarrow> string option" where
  \<comment> \<open>\<open>path.includes('/') ? path.substring(0, path.lastIndexOf('/')) : null\<close>\<close>
  "parent_path path =
     (if CHR ''/'' \<in> set path then Some (take (lastIndexOf_slash path) path) else None)"

definition init_category :: "string \<times> CategoryInfo \<Rightarrow> Tree \<Rightarrow> Tree" where
  \<comment> \<open>the body of the first loop, over \<open>this.storage.categories\<close>\<close>
  "init_category kv t =
     (let path = fst kv;
          entry = \<lparr> info = snd kv, items = [], parent = parent_path path, children = [] \<rparr>
      in if path \<noteq> ''favorites''
         then if path = ''__proto__'' then t \<lparr> t_prototype := Some entry \<rparr>
              else t \<lparr> t_categories := AList.update path entry (t_categories t) \<rparr>
         else t)"

definition link_child :: "string \<Rightarrow> string option \<Rightarrow> Tree \<Rightarrow> js_error + Tree" where
  \<comment> \<open>the body of the second loop, for the own key \<open>path\<close> whose entry has the parent
      \<open>parentPath\<close>; \<open>.children\<close> of a value that is no entry is \<open>undefined\<close>, and
      \<open>.includes\<close> on it throws\<close>
  "link_child path parentPath t =
     (case parentPath of
        None \<Rightarrow> Inr t
      | Some pp \<Rightarrow>
          if pp = [] then Inr t
          else
            (case get_category t pp of
               Falsy \<Rightarrow> Inr t
             | Truthy \<Rightarrow> Inl TypeError
             | Own entry \<Rightarrow>
                 if path \<notin> set (children entry)
                 then Inr (t \<lparr> t_categories :=
                         AList.update pp (entry \<lparr> children := children entry @ [path] \<rparr>)
                           (t_categories t) \<rparr>)
                 else Inr t
             | Inherited entry \<Rightarrow>
                 if path \<notin> set (children entry)
                 then Inr (t \<lparr> t_prototype :=
                         Some (entry \<lparr> children := children entry @ [path] \<rparr>) \<rparr>)
                 else Inr t))"

definition place_prompt :: "Prompt \<Rightarrow> Tree \<Rightarrow> js_error + Tree" where
  \<comment> \<open>the body of the third loop, over the prompts; \<open>.items\<close> of a value that is no entry
      is \<open>undefined\<close>, and \<open>.push\<close> on it throws\<close>
  "place_prompt p t =
     (let t1 = (if isFavorite p then t \<lparr> t_favorites := t_favorites t @ [p] \<rparr> else t);
          cat = or_else (Some (category p)) ''uncategorized''
      in case get_category t1 cat of
           Own entry \<Rightarrow>
             Inr (t1 \<lparr> t_categories :=
                    AList.update cat (entry \<lparr> items := items entry @ [p] \<rparr>) (t_categories t1) \<rparr>)
         | Inherited entry \<Rightarrow>
             Inr (t1 \<lparr> t_prototype := Some (entry \<lparr> items := items entry @ [p] \<rparr>) \<rparr>)
         | Truthy \<Rightarrow> Inl TypeError
         | Falsy \<Rightarrow>
             if cat = ''uncategorized'' \<and> \<not> isFavorite p
             then Inr (t1 \<lparr> t_uncategorized := t_uncategorized t1 @ [p] \<rparr>)
             else Inr t1)"

fun forEach :: "('a \<Rightarrow> 's \<Rightarrow> js_error + 's) \<Rightarrow> 'a list \<Rightarrow> 's \<Rightarrow> js_error + 's" where
  \<comment> \<open>a \<open>forEach\<close> whose callback can throw: the exception ends the loop\<close>
  "forEach f [] s = Inr s"
| "forEach f (x # xs) s = (case f x s of Inl err \<Rightarrow> Inl err | Inr s1 \<Rightarrow> forEach f xs s1)"

definition buildTreeStructure :: "StorageManager \<Rightarrow> js_error + Tree" where
  \<comment> \<open>the second loop runs over \<open>Object.keys(tree.categories)\<close>, the own keys after the
      first loop; it changes no entry's \<open>parent\<close>, so each key comes with its parent as
      the first loop set it\<close>
  "buildTreeStructure st =
     (let tree0 = \<lparr> t_categories = [], t_prototype = None, t_favorites = [],
                     t_uncategorized = [] \<rparr>;
          tree1 = fold init_category (categories st) tree0
      in case forEach (\<lambda>kv. link_child (fst kv) (parent (snd kv))) (t_categories tree1) tree1 of
           Inl err \<Rightarrow> Inl err
         | Inr tree2 \<Rightarrow> forEach place_prompt (map snd (prompts st)) tree2)"

section \<open>The specification's formula, notions for the statements, example inputs\<close>

subsection \<open>The relevance score as the specification words it\<close>

text \<open>
  The specification's sentence on the score: title substring +50 (additional +25 if
  prefix match), body substring +20, tag-list substring +15, each of notes, author and
  model substring +5, capped at 100; the matches ignore case.
\<close>

definition contains_ci :: "string \<Rightarrow> string \<Rightarrow> bool" where
  "contains_ci s q = includes_str (toLowerCase s) (toLowerCase q)"

definition relevance_spec :: "Prompt \<Rightarrow> string \<Rightarrow> nat" where
  "relevance_spec p q =
     min 100
       ((if contains_ci (title p) q then 50 else 0) +
        (if contains_ci (title p) q \<and> startsWith (toLowerCase (title p)) (toLowerCase q)
         then 25 else 0) +
        (if contains_ci (prompt p) q then 20 else 0) +
        (if contains_ci (join '', '' (tags p)) q then 15 else 0) +
        (if contains_ci (notes p) q then 5 else 0) +
        (if contains_ci (author p) q then 5 else 0) +
        (if contains_ci (model p) q then 5 else 0))"

subsection \<open>Notions the statements use\<close>

text \<open>
  \<open>setItem_succeeds\<close>: the coming call of \<open>localStorage.setItem\<close> does not throw.
  \<open>snapshot\<close>: the backup object \<open>createBackup\<close> builds. \<open>cat_of\<close>: the key under which
  \<open>buildTreeStructure\<close> looks a prompt up, and \<open>items_of\<close>: the item list of a key of the
  tree. \<open>plain_paths\<close>: no read of \<open>tree.categories\<close> finds an inherited property, that is,
  no category is stored under \<open>__proto__\<close>, and every parent path of a category and every
  category of a prompt is a stored category or is no property name of
  \<open>Object.prototype\<close>. \<open>fresh_entries\<close>: the tree before the loop over the prompts.
\<close>

definition setItem_succeeds :: "LocalStorage \<Rightarrow> bool" where
  "setItem_succeeds ls = (case ls_setItem ls of [] \<Rightarrow> True | r # rs \<Rightarrow> r = Stored)"

definition snapshot :: "string \<Rightarrow> StorageManager \<Rightarrow> Backup" where
  "snapshot now st =
     \<lparr> b_timestamp = now, b_version = ''1.0'',
       b_data = \<lparr> b_prompts = map (\<lambda>kv. toObject (snd kv)) (prompts st),
                  b_categories = categories st,
                  b_favorites = favorites st,
                  b_settings = settings st \<rparr> \<rparr>"

definition cat_of :: "Prompt \<Rightarrow> string" where
  "cat_of p = or_else (Some (category p)) ''uncategorized''"

definition items_of :: "Tree \<Rightarrow> string \<Rightarrow> Prompt list" where
  "items_of t c = (case map_of (t_categories t) c of Some entry \<Rightarrow> items entry | None \<Rightarrow> [])"

definition plain_paths :: "StorageManager \<Rightarrow> bool" where
  "plain_paths st =
     (''__proto__'' \<notin> fst ` set (categories st) \<and>
      (\<forall>k \<in> fst ` set (categories st).
         case parent_path k of
           None \<Rightarrow> True
         | Some pp \<Rightarrow> pp \<in> fst ` set (categories st) \<or> pp \<notin> set object_prototype_keys) \<and>
      (\<forall>p \<in> snd ` set (prompts st).
         category p \<in> fst ` set (categories st) \<or>
         category p \<notin> set object_prototype_keys))"

definition fresh_entries :: "Tree \<Rightarrow> bool" where
  "fresh_entries t =
     (t_prototype t = None \<and> t_favorites t = [] \<and> t_uncategorized t = [] \<and>
      (\<forall>kv \<in> set (t_categories t). items (snd kv) = [] \<and> parent (snd kv) = parent_path (fst kv)))"

subsection \<open>An import, record by record\<close>

text \<open>
  The words of the specification on an import with merge, for incoming records \<open>ds\<close> and
  the collection \<open>m\<close> as it is before the import. \<open>constructed\<close>: what the constructor
  makes of each incoming record, in the order of the file, the \<open>j\<close>-th with the clock and
  random number of its own call. \<open>present_at\<close>: the identifiers present when the turn of
  record \<open>j\<close> comes, those of the collection and those of the valid records before it in
  the file. A valid record \<open>is_new\<close> when its identifier is not present at its turn, and
  \<open>collides\<close> when it is. \<open>added\<close>: the entries of the new records, in the order of the
  file. \<open>failures\<close>: the error messages of the invalid records, in the order of the file.
\<close>

definition constructed :: "(nat \<Rightarrow> env) \<Rightarrow> nat \<Rightarrow> PromptData list \<Rightarrow> (error + Prompt) list" where
  "constructed envs i ds = map (\<lambda>j. new_Prompt (envs (i + j)) (ds ! j)) [0..<length ds]"

definition ids_of :: "(error + Prompt) list \<Rightarrow> string list" where
  "ids_of cs = concat (map (\<lambda>c. case c of Inl msg \<Rightarrow> [] | Inr p \<Rightarrow> [id' p]) cs)"

definition present_at :: "(string \<times> Prompt) list \<Rightarrow> (error + Prompt) list \<Rightarrow> nat \<Rightarrow> string set" where
  "present_at m cs j = fst ` set m \<union> set (ids_of (take j cs))"

definition is_new :: "(string \<times> Prompt) list \<Rightarrow> (error + Prompt) list \<Rightarrow> nat \<Rightarrow> bool" where
  "is_new m cs j = (case cs ! j of Inl msg \<Rightarrow> False | Inr p \<Rightarrow> id' p \<notin> present_at m cs j)"

definition collides :: "(string \<times> Prompt) list \<Rightarrow> (error + Prompt) list \<Rightarrow> nat \<Rightarrow> bool" where
  "collides m cs j = (case cs ! j of Inl msg \<Rightarrow> False | Inr p \<Rightarrow> id' p \<in> present_at m cs j)"

definition added :: "(string \<times> Prompt) list \<Rightarrow> (error + Prompt) list \<Rightarrow> (string \<times> Prompt) list" where
  "added m cs =
     map (\<lambda>j. (id' (projr (cs ! j)), projr (cs ! j))) (filter (is_new m cs) [0..<length cs])"

definition failures :: "(error + Prompt) list \<Rightarrow> string list" where
  "failures cs =
     concat (map (\<lambda>c. case c of Inl msg \<Rightarrow> [''Failed to import prompt: '' @ msg] | Inr p \<Rightarrow> [])
               cs)"

subsection \<open>Example inputs\<close>

text \<open>
  The inputs of the witnesses and counterexamples. \<open>example_dump\<close> and \<open>example_load\<close>
  stand for the YAML library at the one object and text of the example; \<open>example_parse\<close>
  stands for a parser that read the example's import file.
\<close>

definition example_env :: env where
  "example_env = \<lparr> date_now = 1700000000000, random36 = ''k3j9x0q2m'',
     today = ''2024-06-01'', parses_as_date = (\<lambda>s. length s = 10) \<rparr>"

definition example_prompt :: Prompt where
  "example_prompt = \<lparr> id' = ''prompt-1'', title = ''AI Code Review'', type = ''code'',
     prompt = ''Review this code'', negative_prompt = [], model = ''gpt'', author = [],
     tags = [''java'', ''review''], notes = [], version = ''1.0'', created = ''2024-01-15'',
     modified = ''2024-02-01'', category = ''linguaggi/java'', isFavorite = True \<rparr>"

definition long_title_prompt :: Prompt where
  "long_title_prompt = example_prompt \<lparr> title := replicate 194 (CHR ''a'') \<rparr>"

definition unversioned_prompt :: Prompt where
  "unversioned_prompt = example_prompt \<lparr> version := [] \<rparr>"

definition same_id_prompt :: Prompt where
  "same_id_prompt = example_prompt \<lparr> id' := ''prompt-1700000000000-k3j9x0q2m'' \<rparr>"

definition example_yaml :: string where
  "example_yaml =
     ''title: AI Code Review'' @ [CHR 0x0A] @
     ''type: code'' @ [CHR 0x0A] @
     ''prompt: Review this code'' @ [CHR 0x0A] @
     ''model: gpt'' @ [CHR 0x0A] @
     ''tags:'' @ [CHR 0x0A] @
     ''  - java'' @ [CHR 0x0A] @
     ''  - review'' @ [CHR 0x0A] @
     ''version: '' @ quote @ ''1.0'' @ quote @ [CHR 0x0A] @
     ''created: '' @ quote @ ''2024-01-15'' @ quote @ [CHR 0x0A] @
     ''modified: '' @ quote @ ''2024-02-01'' @ quote @ [CHR 0x0A]"

definition example_dump :: "PromptData \<Rightarrow> string" where
  "example_dump d = (if d = yamlData example_prompt then example_yaml else [])"

definition example_load :: "string \<Rightarrow> error + PromptData" where
  "example_load s =
     (if s = example_yaml then Inr (yamlData example_prompt) else Inl ''unexpected text'')"

definition example_backup :: "string \<Rightarrow> Backup" where
  "example_backup t =
     \<lparr> b_timestamp = t, b_version = ''1.0'',
       b_data = \<lparr> b_prompts = [], b_categories = [], b_favorites = [],
                  b_settings = getDefaultSettings \<rparr> \<rparr>"

definition empty_store :: LocalStorage where
  "empty_store = \<lparr> ls_prompts = None, ls_categories = None, ls_favorites = None,
     ls_settings = None, ls_backup = None, ls_setItem = [] \<rparr>"

definition five_backups :: "Backup list" where
  "five_backups = map example_backup [''t5'', ''t4'', ''t3'', ''t2'', ''t1'']"

definition example_storage :: StorageManager where
  "example_storage =
     \<lparr> prompts = [(''prompt-1'', example_prompt)],
       categories = [(''favorites'', \<lparr> cat_name = ''Favorites'', icon = ''star'', color = ''#fbbf24'' \<rparr>),
                     (''linguaggi'', \<lparr> cat_name = ''Linguaggi'', icon = ''folder'', color = ''#10b981'' \<rparr>),
                     (''linguaggi/java'', \<lparr> cat_name = ''Java'', icon = ''file'', color = ''#f59e0b'' \<rparr>)],
       favorites = [''prompt-1''],
       settings = getDefaultSettings,
       store = empty_store \<lparr> ls_backup := Some five_backups \<rparr> \<rparr>"

definition quota_storage :: StorageManager where
  "quota_storage =
     example_storage \<lparr> store := (store example_storage) \<lparr> ls_setItem := [QuotaExceededError] \<rparr> \<rparr>"

definition example_incoming :: "PromptData list" where
  "example_incoming =
     [toObject (example_prompt \<lparr> title := ''Changed title'' \<rparr>),
      toObject (example_prompt \<lparr> id' := ''prompt-2'', title := ''Recruiter'' \<rparr>),
      no_data \<lparr> d_id := Some ''prompt-3'', d_prompt := Some ''Some text'' \<rparr>,
      toObject (example_prompt \<lparr> id' := ''prompt-2'', title := ''Recruiter again'' \<rparr>)]"

definition example_import :: ParsedData where
  "example_import = \<lparr> i_prompts = Some example_incoming, i_categories = None,
     i_favorites = None, i_settings = None \<rparr>"

definition example_parse :: "string \<Rightarrow> error + parsed" where
  "example_parse text = Inr (Parsed example_import)"

definition folder :: "string \<Rightarrow> CategoryInfo" where
  "folder n = \<lparr> cat_name = n, icon = ''folder'', color = ''#6b7280'' \<rparr>"

definition lost_storage :: StorageManager where
  "lost_storage =
     \<lparr> prompts =
         [(''prompt-3'', example_prompt \<lparr> id' := ''prompt-3'', category := ''foo'',
                                           isFavorite := False \<rparr>),
          (''prompt-4'', example_prompt \<lparr> id' := ''prompt-4'', category := ''favorites'',
                                           isFavorite := False \<rparr>)],
       categories = [(''favorites'', folder ''Favorites''), (''linguaggi'', folder ''Linguaggi'')],
       favorites = [],
       settings = getDefaultSettings,
       store = empty_store \<rparr>"

definition constructor_storage :: StorageManager where
  "constructor_storage =
     \<lparr> prompts =
         [(''prompt-5'', example_prompt \<lparr> id' := ''prompt-5'', category := ''constructor'',
                                           isFavorite := False \<rparr>)],
       categories = [(''linguaggi'', folder ''Linguaggi'')],
       favorites = [],
       settings = getDefaultSettings,
       store = empty_store \<rparr>"

section \<open>Properties of the Prompt model\<close>

subsection \<open>The relevance score\<close>

lemma trim_Nil [simp]: "trim [] = []" by (simp add: trim_def)

lemma trim_empty_iff: "trim s = [] \<longleftrightarrow> (\<forall>c\<in>set s. isWhiteSpace c)"
proof
  assume "trim s = []"
  then have all: "\<forall>c\<in>set (dropWhile isWhiteSpace s). isWhiteSpace c"
    by (simp add: trim_def dropWhile_eq_Nil_conv)
  have "dropWhile isWhiteSpace s = []"
  proof (rule ccontr)
    assume ne: "dropWhile isWhiteSpace s \<noteq> []"
    then have "\<not> isWhiteSpace (hd (dropWhile isWhiteSpace s))"
      by (rule hd_dropWhile)
    moreover from ne have "hd (dropWhile isWhiteSpace s) \<in> set (dropWhile isWhiteSpace s)"
      by (rule hd_in_set)
    ultimately show False using all by blast
  qed
  then show "\<forall>c\<in>set s. isWhiteSpace c"
    by (simp add: dropWhile_eq_Nil_conv)
next
  assume "\<forall>c\<in>set s. isWhiteSpace c"
  then have d: "dropWhile isWhiteSpace s = []"
    by (simp add: dropWhile_eq_Nil_conv)
  show "trim s = []"
    unfolding trim_def d by simp
qed

lemma toLowerCase_Nil_iff [simp]: "toLowerCase q = [] \<longleftrightarrow> q = []"
  by (simp add: toLowerCase_def)

lemma nonempty_and_includes:
  "q \<noteq> [] \<Longrightarrow>
     (f \<noteq> [] \<and> includes_str (toLowerCase f) (toLowerCase q)) =
     includes_str (toLowerCase f) (toLowerCase q)"
  by (cases f) (simp_all add: toLowerCase_def)

text \<open>
  Claim C8, as amended. For every record and every query that is not blank (not empty
  and not white space only), the relevance score is the minimum of 100 and the sum of
  50 if the title contains the query (ignoring case), 25 more if the title also starts
  with it, 20 if the body contains it, 15 if the comma-joined tag list contains it, and
  5 for each of notes, author and model that contains it. For every record and every
  blank query the score is 0. So the score never exceeds 100.
\<close>

theorem getSearchRelevance_weighted_sum:
  "getSearchRelevance p query = (if trim query = [] then 0 else relevance_spec p query) \<and>
   getSearchRelevance p query \<le> 100"
proof (cases "trim query = []")
  case True
  then show ?thesis by (simp add: getSearchRelevance_def)
next
  case False
  then have q: "query \<noteq> []" by auto
  have eq: "getSearchRelevance p query = relevance_spec p query"
    using False q
    by (simp add: getSearchRelevance_def relevance_spec_def Let_def getTagsString_def
        contains_ci_def nonempty_and_includes)
  have "relevance_spec p query \<le> 100"
    unfolding relevance_spec_def by (rule min.cobounded1)
  with eq False show ?thesis by simp
qed

theorem getSearchRelevance_weighted_sum_witness:
  "trim ''JAVA'' \<noteq> [] \<and>
   getSearchRelevance example_prompt ''JAVA'' = relevance_spec example_prompt ''JAVA'' \<and>
   getSearchRelevance example_prompt ''JAVA'' = 15 \<and>
   trim '' '' = [] \<and>
   getSearchRelevance example_prompt '' '' = 0"
proof -
  have t: "trim ''JAVA'' \<noteq> []" by code_simp
  have b: "trim '' '' = []" by code_simp
  have v: "relevance_spec example_prompt ''JAVA'' = 15" by code_simp
  from getSearchRelevance_weighted_sum [of example_prompt "''JAVA''"]
    getSearchRelevance_weighted_sum [of example_prompt "'' ''"] t b v
  show ?thesis by simp
qed

theorem getSearchRelevance_blank_query_counterexample:
  "'' '' \<noteq> [] \<and> getSearchRelevance example_prompt '' '' = 0 \<and>
   relevance_spec example_prompt '' '' = 85"
  by code_simp

subsection \<open>Updating a record\<close>

lemma validate_ok_iff: "validate e p = Inr () \<longleftrightarrow> validation_errors e p = []"
  by (simp add: validate_def Let_def)

text \<open>
  Claim C9. For every record and every \<open>update\<close> call, whether or not it ends in a
  validation error: the identifier and the creation date are unchanged, the modified date
  is the current date, each of the eleven allow-listed fields has the input's value when
  the input has that property and its prior value otherwise, and the properties \<open>id\<close>,
  \<open>created\<close> and \<open>modified\<close> of the input are ignored.
\<close>

theorem update_frame:
  "id' (snd (update e data p)) = id' p \<and>
   created (snd (update e data p)) = created p \<and>
   modified (snd (update e data p)) = today e \<and>
   title (snd (update e data p)) = (case d_title data of Some v \<Rightarrow> v | None \<Rightarrow> title p) \<and>
   type (snd (update e data p)) = (case d_type data of Some v \<Rightarrow> v | None \<Rightarrow> type p) \<and>
   prompt (snd (update e data p)) = (case d_prompt data of Some v \<Rightarrow> v | None \<Rightarrow> prompt p) \<and>
   negative_prompt (snd (update e data p)) =
     (case d_negative_prompt data of Some v \<Rightarrow> v | None \<Rightarrow> negative_prompt p) \<and>
   model (snd (update e data p)) = (case d_model data of Some v \<Rightarrow> v | None \<Rightarrow> model p) \<and>
   author (snd (update e data p)) = (case d_author data of Some v \<Rightarrow> v | None \<Rightarrow> author p) \<and>
   tags (snd (update e data p)) = (case d_tags data of Some v \<Rightarrow> v | None \<Rightarrow> tags p) \<and>
   notes (snd (update e data p)) = (case d_notes data of Some v \<Rightarrow> v | None \<Rightarrow> notes p) \<and>
   version (snd (update e data p)) = (case d_version data of Some v \<Rightarrow> v | None \<Rightarrow> version p) \<and>
   category (snd (update e data p)) = (case d_category data of Some v \<Rightarrow> v | None \<Rightarrow> category p) \<and>
   isFavorite (snd (update e data p)) =
     (case d_isFavorite data of Some v \<Rightarrow> v | None \<Rightarrow> isFavorite p) \<and>
   update e (data \<lparr> d_id := x, d_created := y, d_modified := z \<rparr>) p = update e data p"
  by (simp add: update_def assign_allowed_def Let_def)

text \<open>
  Claim C10. When \<open>update\<close> throws a validation error, the record is left with the
  assigned field values and the refreshed modified date, the state that failed the
  validation, and not with its values from before the call.
\<close>

theorem update_not_atomic:
  assumes "fst (update e data p) = Inl msg"
  shows "snd (update e data p) =
           p \<lparr> title := (case d_title data of Some v \<Rightarrow> v | None \<Rightarrow> title p),
               type := (case d_type data of Some v \<Rightarrow> v | None \<Rightarrow> type p),
               prompt := (case d_prompt data of Some v \<Rightarrow> v | None \<Rightarrow> prompt p),
               negative_prompt :=
                 (case d_negative_prompt data of Some v \<Rightarrow> v | None \<Rightarrow> negative_prompt p),
               model := (case d_model data of Some v \<Rightarrow> v | None \<Rightarrow> model p),
               author := (case d_author data of Some v \<Rightarrow> v | None \<Rightarrow> author p),
               tags := (case d_tags data of Some v \<Rightarrow> v | None \<Rightarrow> tags p),
               notes := (case d_notes data of Some v \<Rightarrow> v | None \<Rightarrow> notes p),
               version := (case d_version data of Some v \<Rightarrow> v | None \<Rightarrow> version p),
               category := (case d_category data of Some v \<Rightarrow> v | None \<Rightarrow> category p),
               isFavorite := (case d_isFavorite data of Some v \<Rightarrow> v | None \<Rightarrow> isFavorite p),
               modified := today e \<rparr>
         \<and> validate e (snd (update e data p)) = Inl msg"
  using assms by (simp add: update_def assign_allowed_def Let_def)

lemma example_strings:
  "\<not> required_missing ''AI Code Review''"
  "\<not> required_missing ''code''"
  "\<not> required_missing ''Review this code''"
  "required_missing []"
  "version_format ''1.0''"
  "''code'' \<in> set TYPES"
  by code_simp+

lemma example_valid: "validate example_env example_prompt = Inr ()"
  by (simp add: validate_def validation_errors_def example_env_def example_prompt_def
      isValidDate_def example_strings)

lemma example_update:
  "update example_env (no_data \<lparr> d_title := Some [] \<rparr>) example_prompt =
     (Inl (''Validation failed: Field '' @ quote @ ''title'' @ quote @ '' is required''),
      example_prompt \<lparr> title := [], modified := ''2024-06-01'' \<rparr>)"
  by (simp add: update_def assign_allowed_def no_data_def validate_def validation_errors_def
      example_env_def example_prompt_def isValidDate_def example_strings required_error_def)

theorem update_not_atomic_witness:
  "fst (update example_env (no_data \<lparr> d_title := Some [] \<rparr>) example_prompt) =
     Inl (''Validation failed: Field '' @ quote @ ''title'' @ quote @ '' is required'') \<and>
   title (snd (update example_env (no_data \<lparr> d_title := Some [] \<rparr>) example_prompt)) = [] \<and>
   modified (snd (update example_env (no_data \<lparr> d_title := Some [] \<rparr>) example_prompt)) = ''2024-06-01'' \<and>
   snd (update example_env (no_data \<lparr> d_title := Some [] \<rparr>) example_prompt) \<noteq> example_prompt"
proof -
  have f: "fst (update example_env (no_data \<lparr> d_title := Some [] \<rparr>) example_prompt) =
     Inl (''Validation failed: Field '' @ quote @ ''title'' @ quote @ '' is required'')"
    by (simp add: example_update)
  from update_not_atomic [OF f] show ?thesis
    using f by (simp add: no_data_def example_prompt_def example_env_def)
qed

subsection \<open>Cloning a record\<close>

lemma required_missing_iff: "required_missing v \<longleftrightarrow> (\<forall>c\<in>set v. isWhiteSpace c)"
  by (auto simp: required_missing_def trim_empty_iff)

lemma copy_not_missing: "\<not> required_missing (t @ '' (Copy)'')"
proof -
  have "\<not> isWhiteSpace (CHR ''C'')" by code_simp
  then show ?thesis by (auto simp: required_missing_iff)
qed

lemma valid_facts:
  "validation_errors e p = [] \<longleftrightarrow>
     \<not> required_missing (title p) \<and> \<not> required_missing (type p) \<and>
     \<not> required_missing (prompt p) \<and> type p \<in> set TYPES \<and>
     length (title p) \<le> 200 \<and> length (prompt p) \<le> 10000 \<and> length (tags p) \<le> 20 \<and>
     (version p = [] \<or> version_format (version p)) \<and>
     (created p = [] \<or> isValidDate e (created p)) \<and>
     (modified p = [] \<or> isValidDate e (modified p))"
  by (auto simp: validation_errors_def)

lemma type_nonempty: "t \<in> set TYPES \<Longrightarrow> t \<noteq> []"
  by (auto simp: TYPES_def)

text \<open>
  Claim C3, as amended. \<open>clone\<close> builds the copy with the validating constructor. For
  every valid record (and a clock whose date the date check accepts): when the title has
  at most 193 characters, \<open>clone\<close> returns a record whose identifier is the newly
  generated one, whose title is the original title followed by \<open> (Copy)\<close>, and whose
  every other field equals the original's, except that an empty version becomes the
  default \<open>1.0\<close> and an empty created or modified date becomes the current date; when the
  title has more than 193 characters (194 to 200, the record being valid), \<open>clone\<close>
  throws \<open>Validation failed: Title must be 200 characters or less\<close>. The new identifier
  is built from the clock and a random number, whatever the original's identifier is:
  nothing compares the two.
\<close>

theorem clone_copies_fields:
  assumes "validate e p = Inr ()" and "isValidDate e (today e)"
  shows "clone e p =
           (if length (title p) \<le> 193
            then Inr (p \<lparr> id' := generateId e,
                          title := title p @ '' (Copy)'',
                          version := (if version p = [] then ''1.0'' else version p),
                          created := (if created p = [] then today e else created p),
                          modified := (if modified p = [] then today e else modified p) \<rparr>)
            else Inl ''Validation failed: Title must be 200 characters or less'')"
proof -
  let ?q = "p \<lparr> id' := generateId e, title := title p @ '' (Copy)'',
                version := (if version p = [] then ''1.0'' else version p),
                created := (if created p = [] then today e else created p),
                modified := (if modified p = [] then today e else modified p) \<rparr>"
  from assms(1) have f: "validation_errors e p = []"
    by (simp add: validate_ok_iff)
  then have ty: "type p \<noteq> []"
    by (simp add: valid_facts type_nonempty)
  have vf: "version_format ''1.0''" by code_simp
  have a: "assign_fields e
             ((toObject p) \<lparr> d_id := None, d_title := Some (title p @ '' (Copy)'') \<rparr>) = ?q"
    using ty by (cases p) (simp add: assign_fields_def toObject_def or_else_def)
  have ok: "validation_errors e ?q = []" if "length (title p) \<le> 193"
    using f that vf assms(2) by (auto simp: valid_facts copy_not_missing)
  have long: "validation_errors e ?q = [''Title must be 200 characters or less'']"
    if "\<not> length (title p) \<le> 193"
  proof -
    from f have "\<not> required_missing (type p)" "\<not> required_missing (prompt p)"
      "type p \<in> set TYPES" "length (prompt p) \<le> 10000" "length (tags p) \<le> 20"
      "version p = [] \<or> version_format (version p)"
      "created p = [] \<or> isValidDate e (created p)"
      "modified p = [] \<or> isValidDate e (modified p)"
      by (simp_all add: valid_facts)
    with that vf assms(2) show ?thesis
      by (auto simp: validation_errors_def copy_not_missing)
  qed
  show ?thesis
  proof (cases "length (title p) \<le> 193")
    case True
    with a ok show ?thesis
      by (simp add: clone_def new_Prompt_def Let_def toObject_def validate_def)
  next
    case False
    with a long show ?thesis
      by (simp add: clone_def new_Prompt_def Let_def toObject_def validate_def)
  qed
qed

lemma example_id: "generateId example_env = ''prompt-1700000000000-k3j9x0q2m''"
proof -
  have "show_nat 1700000000000 = ''1700000000000''"
    by (simp add: show_nat.simps digit_def)
  then show ?thesis by (simp add: generateId_def example_env_def)
qed

lemma example_today: "isValidDate example_env (today example_env)"
  by (simp add: isValidDate_def example_env_def)

lemma long_title_valid: "validate example_env long_title_prompt = Inr ()"
proof -
  have "\<not> isWhiteSpace (CHR ''a'')" by code_simp
  then have "\<not> required_missing (replicate 194 (CHR ''a''))"
    by (simp add: required_missing_iff)
  then show ?thesis
    by (simp add: validate_ok_iff valid_facts long_title_prompt_def example_prompt_def
      example_env_def isValidDate_def example_strings)
qed

theorem clone_copies_fields_witness:
  "validate example_env example_prompt = Inr () \<and>
   isValidDate example_env (today example_env) \<and>
   clone example_env example_prompt =
     Inr (example_prompt \<lparr> id' := ''prompt-1700000000000-k3j9x0q2m'',
                            title := ''AI Code Review (Copy)'' \<rparr>) \<and>
   validate example_env long_title_prompt = Inr () \<and>
   clone example_env long_title_prompt =
     Inl ''Validation failed: Title must be 200 characters or less''"
proof -
  have h: "length (title example_prompt) \<le> 193" "version example_prompt \<noteq> []"
    "created example_prompt \<noteq> []" "modified example_prompt \<noteq> []"
    "\<not> length (title long_title_prompt) \<le> 193"
    by (simp_all add: example_prompt_def long_title_prompt_def)
  have t: "title example_prompt @ '' (Copy)'' = ''AI Code Review (Copy)''"
    by (simp add: example_prompt_def)
  from clone_copies_fields [OF example_valid example_today]
    clone_copies_fields [OF long_title_valid example_today]
  show ?thesis
    using example_valid example_today long_title_valid h by (simp add: example_id t)
qed

lemma long_title_clone:
  "clone example_env long_title_prompt =
     Inl ''Validation failed: Title must be 200 characters or less''"
  by (simp add: clone_def new_Prompt_def Let_def toObject_def assign_fields_def or_else_def
      validate_def validation_errors_def copy_not_missing long_title_prompt_def
      example_prompt_def example_env_def isValidDate_def example_strings)

lemma unversioned_valid: "validate example_env unversioned_prompt = Inr ()"
  by (simp add: validate_ok_iff valid_facts unversioned_prompt_def example_prompt_def
      example_env_def isValidDate_def example_strings)

lemma copy_title: "\<not> required_missing ''AI Code Review (Copy)''"
proof -
  have "\<not> required_missing (''AI Code Review'' @ '' (Copy)'')"
    by (rule copy_not_missing)
  then show ?thesis by simp
qed

lemma unversioned_clone:
  "clone example_env unversioned_prompt =
     Inr (unversioned_prompt \<lparr> id' := ''prompt-1700000000000-k3j9x0q2m'',
                                title := ''AI Code Review (Copy)'', version := ''1.0'' \<rparr>)"
  using example_id copy_title
  by (simp add: clone_def new_Prompt_def Let_def toObject_def assign_fields_def or_else_def
      validate_def validation_errors_def unversioned_prompt_def
      example_prompt_def example_env_def isValidDate_def example_strings)

lemma same_id_valid: "validate example_env same_id_prompt = Inr ()"
  by (simp add: validate_ok_iff valid_facts same_id_prompt_def example_prompt_def
      example_env_def isValidDate_def example_strings)

lemma same_id_clone:
  "clone example_env same_id_prompt =
     Inr (same_id_prompt \<lparr> title := ''AI Code Review (Copy)'' \<rparr>)"
  using example_id copy_title
  by (simp add: clone_def new_Prompt_def Let_def toObject_def assign_fields_def or_else_def
      validate_def validation_errors_def same_id_prompt_def
      example_prompt_def example_env_def isValidDate_def example_strings)

theorem clone_counterexample:
  "validate example_env long_title_prompt = Inr () \<and>
   clone example_env long_title_prompt =
     Inl ''Validation failed: Title must be 200 characters or less'' \<and>
   validate example_env unversioned_prompt = Inr () \<and>
   version unversioned_prompt = [] \<and>
   clone example_env unversioned_prompt =
     Inr (unversioned_prompt \<lparr> id' := ''prompt-1700000000000-k3j9x0q2m'',
                                title := ''AI Code Review (Copy)'', version := ''1.0'' \<rparr>) \<and>
   validate example_env same_id_prompt = Inr () \<and>
   clone example_env same_id_prompt =
     Inr (same_id_prompt \<lparr> title := ''AI Code Review (Copy)'' \<rparr>)"
  using long_title_valid long_title_clone unversioned_valid unversioned_clone
    same_id_valid same_id_clone
  by (simp add: unversioned_prompt_def)

subsection \<open>Writing a record as YAML and reading it back\<close>

lemma or_else_unless_empty: "or_else (unless_empty v) dflt = (if v = [] then dflt else v)"
  by (simp add: or_else_def unless_empty_def)

lemma or_else_None: "or_else None dflt = dflt"
  by (simp add: or_else_def)

lemma or_else_Some: "or_else (Some v) dflt = (if v = [] then dflt else v)"
  by (simp add: or_else_def)

lemma spread_no_data: "spread d no_data = d"
  by (simp add: spread_def no_data_def)

text \<open>
  Claim C1, as amended. \<open>toYAML\<close> writes eleven fields (title, type, prompt,
  negative_prompt, model, author, tags, notes, version, created, modified) and leaves out
  those that are empty; it does not write the identifier, the category or the favorite
  flag. For every valid record with non-empty dates, and a YAML library that reads back
  the object it wrote, \<open>fromYAML\<close> of \<open>toYAML\<close> is a record whose written fields equal the
  original's, except that an empty version comes back as the default \<open>1.0\<close>; its
  identifier is newly generated, its category is empty and its favorite flag is false.
  When the identifier, the category and the favorite flag are passed as metadata, the
  record read back equals the original (up to the version default).
\<close>

theorem yaml_round_trip:
  assumes lib: "load (dump (yamlData p)) = Inr (yamlData p)"
    and valid: "validate e p = Inr ()"
    and dates: "created p \<noteq> []" "modified p \<noteq> []"
  shows "fromYAML load e (toYAML dump p) no_data =
           Inr (p \<lparr> id' := generateId e,
                    version := (if version p = [] then ''1.0'' else version p),
                    category := [], isFavorite := False \<rparr>) \<and>
         (id' p \<noteq> [] \<longrightarrow>
          fromYAML load e (toYAML dump p)
            (no_data \<lparr> d_id := Some (id' p), d_category := Some (category p),
                        d_isFavorite := Some (isFavorite p) \<rparr>) =
           Inr (p \<lparr> version := (if version p = [] then ''1.0'' else version p) \<rparr>))"
proof -
  let ?v = "if version p = [] then ''1.0'' else version p"
  from valid have f: "validation_errors e p = []"
    by (simp add: validate_ok_iff)
  then have ty: "type p \<noteq> []"
    by (simp add: valid_facts type_nonempty)
  have vf: "version_format ''1.0''" by code_simp
  have a1: "assign_fields e (spread (yamlData p) no_data) =
              p \<lparr> id' := generateId e, version := ?v, category := [], isFavorite := False \<rparr>"
    using ty dates
    by (cases p) (simp add: spread_no_data assign_fields_def yamlData_def or_else_unless_empty
        or_else_None)
  have v1: "validate e (p \<lparr> id' := generateId e, version := ?v, category := [],
              isFavorite := False \<rparr>) = Inr ()"
    using f vf by (auto simp: validate_ok_iff valid_facts)
  have first: "fromYAML load e (toYAML dump p) no_data =
           Inr (p \<lparr> id' := generateId e, version := ?v, category := [], isFavorite := False \<rparr>)"
    using lib a1 v1 by (simp add: fromYAML_def toYAML_def new_Prompt_def Let_def)
  have second: "fromYAML load e (toYAML dump p)
            (no_data \<lparr> d_id := Some (id' p), d_category := Some (category p),
                        d_isFavorite := Some (isFavorite p) \<rparr>) = Inr (p \<lparr> version := ?v \<rparr>)"
    if idp: "id' p \<noteq> []"
  proof -
    have a2: "assign_fields e (spread (yamlData p)
                (no_data \<lparr> d_id := Some (id' p), d_category := Some (category p),
                            d_isFavorite := Some (isFavorite p) \<rparr>)) = p \<lparr> version := ?v \<rparr>"
      using ty dates idp
      by (cases p) (simp add: spread_def no_data_def assign_fields_def yamlData_def
          or_else_unless_empty or_else_None or_else_Some)
    have v2: "validate e (p \<lparr> version := ?v \<rparr>) = Inr ()"
      using f vf by (auto simp: validate_ok_iff valid_facts)
    show ?thesis
      using lib a2 v2 by (simp add: fromYAML_def toYAML_def new_Prompt_def Let_def)
  qed
  from first second show ?thesis by blast
qed

lemma example_library: "example_load (example_dump (yamlData example_prompt)) = Inr (yamlData example_prompt)"
  by (simp add: example_load_def example_dump_def)

lemma example_fields:
  "created example_prompt \<noteq> []" "modified example_prompt \<noteq> []" "id' example_prompt \<noteq> []"
  "version example_prompt = ''1.0''" "category example_prompt = ''linguaggi/java''"
  "isFavorite example_prompt" "id' example_prompt = ''prompt-1''"
  by (simp_all add: example_prompt_def)

theorem yaml_round_trip_witness:
  "example_load (example_dump (yamlData example_prompt)) = Inr (yamlData example_prompt) \<and>
   validate example_env example_prompt = Inr () \<and>
   created example_prompt \<noteq> [] \<and> modified example_prompt \<noteq> [] \<and>
   id' example_prompt \<noteq> [] \<and>
   fromYAML example_load example_env (toYAML example_dump example_prompt)
     (no_data \<lparr> d_id := Some ''prompt-1'', d_category := Some ''linguaggi/java'',
                 d_isFavorite := Some True \<rparr>) = Inr example_prompt"
  using yaml_round_trip [where load = example_load and dump = example_dump
      and p = example_prompt and e = example_env, OF example_library example_valid example_fields(1,2)]
    example_library example_valid example_fields
  by simp

theorem yaml_round_trip_counterexample:
  "example_load (example_dump (yamlData example_prompt)) = Inr (yamlData example_prompt) \<and>
   validate example_env example_prompt = Inr () \<and>
   fromYAML example_load example_env (toYAML example_dump example_prompt) no_data =
     Inr (example_prompt \<lparr> id' := ''prompt-1700000000000-k3j9x0q2m'', category := [],
                            isFavorite := False \<rparr>) \<and>
   id' example_prompt = ''prompt-1'' \<and>
   category example_prompt = ''linguaggi/java'' \<and> isFavorite example_prompt"
proof -
  have a: "assign_fields example_env (spread (yamlData example_prompt) no_data) =
      example_prompt \<lparr> id' := ''prompt-1700000000000-k3j9x0q2m'', category := [],
                            isFavorite := False \<rparr>"
    using example_id
    by (simp add: spread_no_data assign_fields_def yamlData_def or_else_unless_empty
        example_prompt_def example_env_def or_else_def unless_empty_def)
  have v: "validate example_env (example_prompt \<lparr> id' := ''prompt-1700000000000-k3j9x0q2m'',
             category := [], isFavorite := False \<rparr>) = Inr ()"
    by (simp add: validate_ok_iff valid_facts example_prompt_def
      example_env_def isValidDate_def example_strings)
  have "fromYAML example_load example_env (toYAML example_dump example_prompt) no_data =
     Inr (example_prompt \<lparr> id' := ''prompt-1700000000000-k3j9x0q2m'', category := [],
                            isFavorite := False \<rparr>)"
    using example_library a v by (simp add: fromYAML_def toYAML_def new_Prompt_def Let_def)
  then show ?thesis
    using example_library example_valid example_fields by simp
qed

section \<open>Properties of the storage manager\<close>

subsection \<open>Backups\<close>

lemma saveToStorage_succeeds:
  "setItem_succeeds ls \<Longrightarrow> getBackups (saveToStorage (BACKUP bs) ls) = bs"
  by (auto simp: setItem_succeeds_def saveToStorage.simps setItem_def getBackups_def
      split: list.splits)

lemma saveToStorage_backups_cases:
  "getBackups (saveToStorage v ls) = getBackups ls \<or>
   getBackups (saveToStorage v ls) = take (MAX_BACKUPS div 2) (getBackups ls) \<or>
   (\<exists>bs. v = BACKUP bs \<and> getBackups (saveToStorage v ls) = bs)"
  and "getBackups (cleanupOldBackups ls) = getBackups ls \<or>
   getBackups (cleanupOldBackups ls) = take (MAX_BACKUPS div 2) (getBackups ls)"
proof (induction v ls and ls rule: saveToStorage_cleanupOldBackups.induct)
  case (1 v ls)
  show ?case
  proof (cases "ls_setItem ls")
    case Nil
    then show ?thesis
      by (cases v) (simp_all add: saveToStorage.simps setItem_def getBackups_def)
  next
    case (Cons r rs)
    show ?thesis
    proof (cases r)
      case Stored
      with Cons show ?thesis
        by (cases v) (simp_all add: saveToStorage.simps setItem_def getBackups_def)
    next
      case QuotaExceededError
      with Cons "1.IH" [OF Cons QuotaExceededError] show ?thesis
        by (auto simp: saveToStorage.simps getBackups_def)
    next
      case OtherError
      with Cons show ?thesis
        by (simp add: saveToStorage.simps getBackups_def)
    qed
  qed
next
  case (2 ls)
  from "2.IH" [OF refl refl] show ?case
    by (auto simp: cleanupOldBackups.simps Let_def)
qed

text \<open>
  Claim C6, as amended. After a \<open>createBackup\<close> call whose write to the store succeeds, the
  stored list is the new snapshot followed by the first four snapshots of the earlier
  list: at most 5 snapshots, the new one first, and when the list held 5 the last
  (oldest) one is dropped and exactly 5 remain. After any \<open>createBackup\<close> call, a list
  that held at most 5 snapshots still holds at most 5.
\<close>

theorem createBackup_bounded:
  "(setItem_succeeds (store st) \<longrightarrow>
      getBackups (store (createBackup now st)) =
        snapshot now st # take 4 (getBackups (store st)) \<and>
      length (getBackups (store (createBackup now st))) \<le> 5 \<and>
      (length (getBackups (store st)) = 5 \<longrightarrow>
         getBackups (store (createBackup now st)) =
           snapshot now st # butlast (getBackups (store st)) \<and>
         length (getBackups (store (createBackup now st))) = 5)) \<and>
   (length (getBackups (store st)) \<le> 5 \<longrightarrow>
      length (getBackups (store (createBackup now st))) \<le> 5)"
proof -
  let ?bs = "getBackups (store st)"
  let ?new = "take MAX_BACKUPS (snapshot now st # ?bs)"
  have cb: "store (createBackup now st) = saveToStorage (BACKUP ?new) (store st)"
    by (simp add: createBackup_def snapshot_def Let_def)
  have new: "?new = snapshot now st # take 4 ?bs"
    by (simp add: MAX_BACKUPS_def)
  have a: "getBackups (store (createBackup now st)) = snapshot now st # take 4 ?bs"
    if "setItem_succeeds (store st)"
    using that by (simp only: cb new saveToStorage_succeeds)
  have b: "take 4 ?bs = butlast ?bs" if "length ?bs = 5"
    using that by (simp add: butlast_conv_take)
  have c: "length (getBackups (store (createBackup now st))) \<le> 5" if "length ?bs \<le> 5"
    using saveToStorage_backups_cases(1) [of "BACKUP ?new" "store st"] that
    by (auto simp: cb MAX_BACKUPS_def)
  from a b c show ?thesis by (auto simp: )
qed

lemma example_store_facts:
  "getBackups (store example_storage) = five_backups"
  "setItem_succeeds (store example_storage)"
  "length five_backups = 5"
  "getBackups (store quota_storage) = five_backups"
  by (simp_all add: example_storage_def quota_storage_def empty_store_def getBackups_def
      setItem_succeeds_def five_backups_def)

theorem createBackup_bounded_witness:
  "setItem_succeeds (store example_storage) \<and>
   length (getBackups (store example_storage)) = 5 \<and>
   getBackups (store (createBackup ''t6'' example_storage)) =
     snapshot ''t6'' example_storage # map example_backup [''t5'', ''t4'', ''t3'', ''t2''] \<and>
   length (getBackups (store (createBackup ''t6'' example_storage))) = 5"
  using createBackup_bounded [of example_storage "''t6''"] example_store_facts
  by (simp add: five_backups_def)

theorem createBackup_quota_counterexample:
  "getBackups (store quota_storage) = map example_backup [''t5'', ''t4'', ''t3'', ''t2'', ''t1''] \<and>
   getBackups (store (createBackup ''t6'' quota_storage)) = map example_backup [''t5'', ''t4'']"
  by (simp add: createBackup_def Let_def quota_storage_def example_storage_def empty_store_def
      saveToStorage.simps cleanupOldBackups.simps getBackups_def setItem_def MAX_BACKUPS_def
      five_backups_def)

text \<open>
  Claim C7. For every stored backup list and every index greater than or equal to its
  length, \<open>restoreFromBackup\<close> returns \<open>false\<close>: the exception is caught inside the
  function, none reaches the caller, and the storage manager is left as it was.
\<close>

theorem restoreFromBackup_out_of_range:
  "backupIndex \<ge> int (length (getBackups (store st))) \<Longrightarrow>
     restoreFromBackup envs backupIndex st = (False, st)"
  by (simp add: restoreFromBackup_def Let_def)

theorem restoreFromBackup_out_of_range_witness:
  "(5::int) \<ge> int (length (getBackups (store example_storage))) \<and>
   restoreFromBackup (\<lambda>i. example_env) 5 example_storage = (False, example_storage)"
  using restoreFromBackup_out_of_range [of example_storage 5 "\<lambda>i. example_env"]
    example_store_facts
  by simp

subsection \<open>Deleting a record\<close>

lemma delete_length:
  "distinct (map fst al) \<Longrightarrow> k \<in> fst ` set al \<Longrightarrow> Suc (length (AList.delete k al)) = length al"
proof (induction al)
  case Nil
  then show ?case by simp
next
  case (Cons a al)
  show ?case
  proof (cases "fst a = k")
    case True
    with Cons.prems have "k \<notin> fst ` set al" by auto
    then have "AList.delete k al = al"
      by (simp add: delete_id)
    with True show ?thesis by (cases a) simp
  next
    case False
    with Cons show ?thesis by (cases a) auto
  qed
qed

lemma save_fields [simp]:
  "prompts (savePrompts st) = prompts st" "favorites (savePrompts st) = favorites st"
  "prompts (saveFavorites st) = prompts st" "favorites (saveFavorites st) = favorites st"
  "prompts (saveCategories st) = prompts st" "favorites (saveCategories st) = favorites st"
  "prompts (saveSettings st) = prompts st" "favorites (saveSettings st) = favorites st"
  "prompts (saveAll st) = prompts st" "favorites (saveAll st) = favorites st"
  by (simp_all add: savePrompts_def saveFavorites_def saveCategories_def saveSettings_def
      saveAll_def)

text \<open>
  Claim C5. Deleting a record whose identifier is present (the user confirms the dialog)
  removes the identifier from the record collection and from the favorites set, the
  collection has exactly one entry less, and every other record and favorite stays.
  Calling delete with an identifier that is not in the record collection changes nothing,
  whatever the answer to the dialog.
\<close>

theorem deletePrompt_removes:
  "(distinct (map fst (prompts st)) \<and> promptId \<in> fst ` set (prompts st) \<longrightarrow>
      promptId \<notin> fst ` set (prompts (deletePrompt True promptId st)) \<and>
      promptId \<notin> set (favorites (deletePrompt True promptId st)) \<and>
      Suc (length (prompts (deletePrompt True promptId st))) = length (prompts st) \<and>
      (\<forall>k. k \<noteq> promptId \<longrightarrow>
         map_of (prompts (deletePrompt True promptId st)) k = map_of (prompts st) k) \<and>
      set (favorites (deletePrompt True promptId st)) = set (favorites st) - {promptId}) \<and>
   (promptId \<notin> fst ` set (prompts st) \<longrightarrow> deletePrompt confirmed promptId st = st)"
proof -
  have present: "\<exists>p. map_of (prompts st) promptId = Some p"
    if "promptId \<in> fst ` set (prompts st)"
    using that by (metis domIff dom_map_of_conv_image_fst not_Some_eq)
  have absent: "map_of (prompts st) promptId = None"
    if "promptId \<notin> fst ` set (prompts st)"
    using that by (simp add: map_of_eq_None_iff)
  show ?thesis
  proof (intro conjI impI)
    assume h: "distinct (map fst (prompts st)) \<and> promptId \<in> fst ` set (prompts st)"
    then obtain p where p: "map_of (prompts st) promptId = Some p"
      using present by blast
    then have d: "prompts (deletePrompt True promptId st) = AList.delete promptId (prompts st)"
      and f: "favorites (deletePrompt True promptId st) = removeAll promptId (favorites st)"
      by (simp_all add: deletePrompt_def)
    show "promptId \<notin> fst ` set (prompts (deletePrompt True promptId st))"
      by (simp add: d delete_notin_dom)
    show "promptId \<notin> set (favorites (deletePrompt True promptId st))"
      by (simp add: f)
    show "Suc (length (prompts (deletePrompt True promptId st))) = length (prompts st)"
      using h by (simp add: d delete_length)
    show "\<forall>k. k \<noteq> promptId \<longrightarrow>
         map_of (prompts (deletePrompt True promptId st)) k = map_of (prompts st) k"
      by (simp add: d delete_conv')
    show "set (favorites (deletePrompt True promptId st)) = set (favorites st) - {promptId}"
      by (simp add: f)
  next
    assume "promptId \<notin> fst ` set (prompts st)"
    then show "deletePrompt confirmed promptId st = st"
      by (simp add: deletePrompt_def absent)
  qed
qed

lemma example_storage_prompts:
  "prompts example_storage = [(''prompt-1'', example_prompt)]"
  "favorites example_storage = [''prompt-1'']"
  by (simp_all add: example_storage_def)

theorem deletePrompt_removes_witness:
  "distinct (map fst (prompts example_storage)) \<and>
   ''prompt-1'' \<in> fst ` set (prompts example_storage) \<and>
   prompts (deletePrompt True ''prompt-1'' example_storage) = [] \<and>
   favorites (deletePrompt True ''prompt-1'' example_storage) = [] \<and>
   ''prompt-2'' \<notin> fst ` set (prompts example_storage) \<and>
   deletePrompt True ''prompt-2'' example_storage = example_storage"
proof -
  have a: "distinct (map fst (prompts example_storage)) \<and>
      ''prompt-1'' \<in> fst ` set (prompts example_storage)"
    and b: "''prompt-2'' \<notin> fst ` set (prompts example_storage)"
    by (simp_all add: example_storage_prompts)
  from deletePrompt_removes [of example_storage "''prompt-1''" True] a
  have "Suc (length (prompts (deletePrompt True ''prompt-1'' example_storage))) =
          length (prompts example_storage)"
    and "set (favorites (deletePrompt True ''prompt-1'' example_storage)) =
          set (favorites example_storage) - {''prompt-1''}"
    by blast+
  then have c: "prompts (deletePrompt True ''prompt-1'' example_storage) = []"
    and d: "favorites (deletePrompt True ''prompt-1'' example_storage) = []"
    by (simp_all add: example_storage_prompts)
  from deletePrompt_removes [of example_storage "''prompt-2''" True] b
  have "deletePrompt True ''prompt-2'' example_storage = example_storage"
    by blast
  with a b c d show ?thesis by simp
qed

subsection \<open>Importing with merge\<close>

lemma map_of_None_iff: "map_of m k = None \<longleftrightarrow> k \<notin> fst ` set m"
  by (simp add: map_of_eq_None_iff)

lemma update_fresh: "k \<notin> fst ` set m \<Longrightarrow> AList.update k v m = m @ [(k, v)]"
  by (induction m) auto

lemma importPrompt_merge_cases:
  "importPrompt True e d (m, r) =
     (case new_Prompt e d of
        Inl msg \<Rightarrow> (m, r \<lparr> errors := errors r @ [''Failed to import prompt: '' @ msg] \<rparr>)
      | Inr p \<Rightarrow>
          if id' p \<in> fst ` set m then (m, r \<lparr> skipped := skipped r + 1 \<rparr>)
          else (m @ [(id' p, p)], r \<lparr> imported := imported r + 1 \<rparr>))"
  by (auto simp: importPrompt_def Let_def map_of_None_iff update_fresh split: sum.splits)

lemma constructed_Nil [simp]: "constructed envs i [] = []"
  by (simp add: constructed_def)

lemma upt_Suc_shift: "[0..<Suc n] = 0 # map Suc [0..<n]"
  by (simp add: upt_conv_Cons map_Suc_upt del: upt_Suc)

lemma constructed_Cons:
  "constructed envs i (d # ds) = new_Prompt (envs i) d # constructed envs (Suc i) ds"
  by (simp add: constructed_def upt_Suc_shift comp_def del: upt_Suc)

lemma length_constructed [simp]: "length (constructed envs i ds) = length ds"
  by (simp add: constructed_def)

lemma filter_upt_Suc:
  "filter P [0..<Suc n] =
     (if P 0 then [0] else []) @ map Suc (filter (\<lambda>j. P (Suc j)) [0..<n])"
  by (simp add: upt_Suc_shift filter_map comp_def del: upt_Suc)

lemma failures_Cons: "failures (c # cs) = failures [c] @ failures cs"
  by (simp add: failures_def)

lemma turn_0:
  "is_new m (c # cs) 0 = (case c of Inl msg \<Rightarrow> False | Inr p \<Rightarrow> id' p \<notin> fst ` set m)"
  "collides m (c # cs) 0 = (case c of Inl msg \<Rightarrow> False | Inr p \<Rightarrow> id' p \<in> fst ` set m)"
  by (simp_all add: is_new_def collides_def present_at_def ids_of_def split: sum.splits)

lemma turn_shift:
  assumes "fst ` set m2 = fst ` set m \<union> set (ids_of [c])"
  shows "is_new m (c # cs) (Suc j) = is_new m2 cs j"
    and "collides m (c # cs) (Suc j) = collides m2 cs j"
  using assms
  by (auto simp: is_new_def collides_def present_at_def ids_of_def split: sum.splits)

lemma added_Cons:
  assumes "fst ` set m2 = fst ` set m \<union> set (ids_of [c])"
  shows "added m (c # cs) =
           (if is_new m (c # cs) 0 then [(id' (projr c), projr c)] else []) @ added m2 cs"
  by (simp add: added_def filter_upt_Suc turn_shift(1) [OF assms] comp_def del: upt_Suc)

lemma importPrompt_keys:
  assumes "importPrompt True e d (m, r) = (m2, r2)"
  shows "fst ` set m2 = fst ` set m \<union> set (ids_of [new_Prompt e d])"
  using assms
  by (auto simp: importPrompt_merge_cases ids_of_def split: sum.splits if_splits)

lemma importPrompt_step:
  assumes "importPrompt True e d (m, r) = (m2, r2)"
  shows "m2 = m @ (if is_new m (new_Prompt e d # cs) 0
                   then [(id' (projr (new_Prompt e d)), projr (new_Prompt e d))] else [])"
    and "imported r2 = imported r + (if is_new m (new_Prompt e d # cs) 0 then 1 else 0)"
    and "skipped r2 = skipped r + (if collides m (new_Prompt e d # cs) 0 then 1 else 0)"
    and "errors r2 = errors r @ failures [new_Prompt e d]"
    and "imported r2 + skipped r2 + length (errors r2) =
           imported r + skipped r + length (errors r) + 1"
  using assms
  by (auto simp: importPrompt_merge_cases turn_0 failures_def split: sum.splits if_splits)

lemma importPrompts_merge:
  "importPrompts True envs i ds (m, r) = (m1, r1) \<Longrightarrow>
     m1 = m @ added m (constructed envs i ds) \<and>
     imported r1 =
       imported r + length (filter (is_new m (constructed envs i ds)) [0..<length ds]) \<and>
     skipped r1 =
       skipped r + length (filter (collides m (constructed envs i ds)) [0..<length ds]) \<and>
     errors r1 = errors r @ failures (constructed envs i ds) \<and>
     imported r1 + skipped r1 + length (errors r1) =
       imported r + skipped r + length (errors r) + length ds"
proof (induction ds arbitrary: i m r)
  case Nil
  then show ?case by (simp add: added_def failures_def)
next
  case (Cons d ds)
  let ?c = "new_Prompt (envs i) d"
  let ?cs = "constructed envs (Suc i) ds"
  obtain m2 r2 where step: "importPrompt True (envs i) d (m, r) = (m2, r2)"
    by (cases "importPrompt True (envs i) d (m, r)")
  from Cons.prems have rest: "importPrompts True envs (Suc i) ds (m2, r2) = (m1, r1)"
    by (simp add: step)
  note keys = importPrompt_keys [OF step]
  note s = importPrompt_step(1-3) [where cs = ?cs, OF step] importPrompt_step(4-5) [OF step]
  note ih = Cons.IH [OF rest]
  from ih have ih1: "m1 = m2 @ added m2 ?cs"
    by (rule conjunct1)
  from ih have ih2: "imported r1 =
      imported r2 + length (filter (is_new m2 ?cs) [0..<length ds])"
    by (rule conjunct2 [THEN conjunct1])
  from ih have ih3: "skipped r1 =
      skipped r2 + length (filter (collides m2 ?cs) [0..<length ds])"
    by (rule conjunct2 [THEN conjunct2, THEN conjunct1])
  from ih have ih4: "errors r1 = errors r2 @ failures ?cs"
    by (rule conjunct2 [THEN conjunct2, THEN conjunct2, THEN conjunct1])
  from ih have ih5: "imported r1 + skipped r1 + length (errors r1) =
      imported r2 + skipped r2 + length (errors r2) + length ds"
    by (rule conjunct2 [THEN conjunct2, THEN conjunct2, THEN conjunct2])
  have n: "length (filter (is_new m (?c # ?cs)) [0..<Suc (length ds)]) =
      (if is_new m (?c # ?cs) 0 then 1 else 0) + length (filter (is_new m2 ?cs) [0..<length ds])"
    by (simp add: filter_upt_Suc turn_shift(1) [OF keys] del: upt_Suc)
  have k: "length (filter (collides m (?c # ?cs)) [0..<Suc (length ds)]) =
      (if collides m (?c # ?cs) 0 then 1 else 0) +
      length (filter (collides m2 ?cs) [0..<length ds])"
    by (simp add: filter_upt_Suc turn_shift(2) [OF keys] del: upt_Suc)
  have p1: "m1 = m @ added m (constructed envs i (d # ds))"
    using ih1 s(1) by (simp add: constructed_Cons added_Cons [OF keys])
  have p2: "imported r1 =
      imported r + length (filter (is_new m (constructed envs i (d # ds))) [0..<length (d # ds)])"
    using ih2 s(2) n by (simp add: constructed_Cons del: upt_Suc)
  have p3: "skipped r1 =
      skipped r + length (filter (collides m (constructed envs i (d # ds))) [0..<length (d # ds)])"
    using ih3 s(3) k by (simp add: constructed_Cons del: upt_Suc)
  have p4: "errors r1 = errors r @ failures (constructed envs i (d # ds))"
    using ih4 s(4) by (simp add: constructed_Cons failures_Cons [of ?c ?cs])
  have p5: "imported r1 + skipped r1 + length (errors r1) =
      imported r + skipped r + length (errors r) + length (d # ds)"
    using ih5 s(5) by simp
  from p1 p2 p3 p4 p5 show ?case
    by (intro conjI)
qed

text \<open>
  Claim C4. Importing with \<open>merge = true\<close>, from text that parses to an object with a list
  of records; an identifier is present when the turn of an incoming record comes if it is
  in the collection before the import or is that of a valid record earlier in the same
  list. The call returns a summary. Its imported count is the number of valid incoming
  records whose identifier is not present at their turn, and exactly these are added, at
  the end of the collection and in the order of the list. Its skipped count is the number
  of valid incoming records whose identifier is present at their turn; they are not
  stored. Its error list holds one message for each record the constructor rejects, in
  the order of the list, and such a record does not end the import. Every record stored
  before keeps its value, the collection grows by the imported count, and each incoming
  record is counted exactly once. In particular a single incoming record whose identifier
  is stored gives imported 0, skipped 1, no error, and leaves the collection as it was.
\<close>

theorem importData_merge:
  assumes parsed: "parse_import json_parse yaml_load text format = Inr (Parsed pd)"
    and incoming: "i_prompts pd = Some ds"
    and call: "importData json_parse yaml_load envs text format True st = (res, st1)"
  shows "\<exists>result. res = Inr result \<and>
     imported result =
       length (filter (is_new (prompts st) (constructed envs 0 ds)) [0..<length ds]) \<and>
     skipped result =
       length (filter (collides (prompts st) (constructed envs 0 ds)) [0..<length ds]) \<and>
     errors result = failures (constructed envs 0 ds) \<and>
     prompts st1 = prompts st @ added (prompts st) (constructed envs 0 ds) \<and>
     (\<forall>k v. map_of (prompts st) k = Some v \<longrightarrow> map_of (prompts st1) k = Some v) \<and>
     length (prompts st1) = length (prompts st) + imported result \<and>
     imported result + skipped result + length (errors result) = length ds \<and>
     (\<forall>d p. ds = [d] \<longrightarrow> new_Prompt (envs 0) d = Inr p \<longrightarrow>
        id' p \<in> fst ` set (prompts st) \<longrightarrow>
        result = \<lparr> imported = 0, skipped = 1, errors = [] \<rparr> \<and> prompts st1 = prompts st)"
proof -
  let ?cs = "constructed envs 0 ds"
  obtain m1 r1 where loop:
    "importPrompts True envs 0 ds (prompts st, \<lparr> imported = 0, skipped = 0, errors = [] \<rparr>) = (m1, r1)"
    by (cases "importPrompts True envs 0 ds
                 (prompts st, \<lparr> imported = 0, skipped = 0, errors = [] \<rparr>)")
  from call parsed incoming loop have res: "res = Inr r1" and st1: "prompts st1 = m1"
    by (auto simp: importData_def Let_def split: option.splits)
  note m = importPrompts_merge [OF loop]
  have q1: "imported r1 = length (filter (is_new (prompts st) ?cs) [0..<length ds])"
    using m [THEN conjunct2, THEN conjunct1] by simp
  have q2: "skipped r1 = length (filter (collides (prompts st) ?cs) [0..<length ds])"
    using m [THEN conjunct2, THEN conjunct2, THEN conjunct1] by simp
  have q3: "errors r1 = failures ?cs"
    using m [THEN conjunct2, THEN conjunct2, THEN conjunct2, THEN conjunct1] by simp
  have q4: "prompts st1 = prompts st @ added (prompts st) ?cs"
    using m [THEN conjunct1] by (simp add: st1)
  have q5: "\<forall>k v. map_of (prompts st) k = Some v \<longrightarrow> map_of (prompts st1) k = Some v"
    by (simp add: q4 map_add_Some_iff)
  have q6: "length (prompts st1) = length (prompts st) + imported r1"
    by (simp add: q4 q1 added_def)
  have q7: "imported r1 + skipped r1 + length (errors r1) = length ds"
    using m [THEN conjunct2, THEN conjunct2, THEN conjunct2, THEN conjunct2] by simp
  have q8: "\<forall>d p. ds = [d] \<longrightarrow> new_Prompt (envs 0) d = Inr p \<longrightarrow>
        id' p \<in> fst ` set (prompts st) \<longrightarrow>
        r1 = \<lparr> imported = 0, skipped = 1, errors = [] \<rparr> \<and> prompts st1 = prompts st"
  proof (intro allI impI)
    fix d p
    assume a: "ds = [d]" and b: "new_Prompt (envs 0) d = Inr p"
      and c: "id' p \<in> fst ` set (prompts st)"
    from loop a b c
    have "(m1, r1) = (prompts st, \<lparr> imported = 0, skipped = 1, errors = [] \<rparr>)"
      by (simp add: importPrompt_merge_cases)
    then show "r1 = \<lparr> imported = 0, skipped = 1, errors = [] \<rparr> \<and> prompts st1 = prompts st"
      by (simp add: st1)
  qed
  from res q1 q2 q3 q4 q5 q6 q7 q8 show ?thesis
    by (intro exI [of _ r1] conjI)
qed

lemma example_strings2:
  "\<not> required_missing ''Changed title''"
  "\<not> required_missing ''Recruiter''"
  "\<not> required_missing ''Recruiter again''"
  "\<not> required_missing ''Some text''"
  "\<not> required_missing ''text_generation''"
  "''text_generation'' \<in> set TYPES"
  by code_simp+

lemma example_constructed:
  "constructed (\<lambda>i. example_env) 0 example_incoming =
     [Inr (example_prompt \<lparr> title := ''Changed title'' \<rparr>),
      Inr (example_prompt \<lparr> id' := ''prompt-2'', title := ''Recruiter'' \<rparr>),
      Inl (''Validation failed: Field '' @ quote @ ''title'' @ quote @ '' is required''),
      Inr (example_prompt \<lparr> id' := ''prompt-2'', title := ''Recruiter again'' \<rparr>)]"
  by (simp add: constructed_Cons example_incoming_def
      new_Prompt_def assign_fields_def toObject_def no_data_def or_else_def
      validate_def validation_errors_def required_error_def example_prompt_def example_env_def
      isValidDate_def example_strings example_strings2)

lemma example_turns:
  "filter (is_new (prompts example_storage) (constructed (\<lambda>i. example_env) 0 example_incoming))
     [0..<length example_incoming] = [1]"
  "filter (collides (prompts example_storage) (constructed (\<lambda>i. example_env) 0 example_incoming))
     [0..<length example_incoming] = [0, 3]"
  "failures (constructed (\<lambda>i. example_env) 0 example_incoming) =
     [''Failed to import prompt: Validation failed: Field '' @ quote @ ''title'' @ quote @
      '' is required'']"
  "added (prompts example_storage) (constructed (\<lambda>i. example_env) 0 example_incoming) =
     [(''prompt-2'', example_prompt \<lparr> id' := ''prompt-2'', title := ''Recruiter'' \<rparr>)]"
proof -
  have n: "[0..<length example_incoming] = [0, 1, 2, 3]"
    by (simp add: example_incoming_def upt_Suc_shift del: upt_Suc)
  have l: "[0..<length (constructed (\<lambda>i. example_env) 0 example_incoming)] = [0, 1, 2, 3]"
    by (simp add: n)
  have t: "take 1 xs = (case xs of [] \<Rightarrow> [] | x # r \<Rightarrow> [x])"
    "take 2 (x # xs) = x # take 1 xs" "take 3 (x # xs) = x # take 2 xs" for x :: "'a" and xs
    by (simp_all split: list.splits add: numeral_2_eq_2 numeral_3_eq_3)
  show "filter (is_new (prompts example_storage)
           (constructed (\<lambda>i. example_env) 0 example_incoming))
     [0..<length example_incoming] = [1]"
    by (simp add: n example_constructed is_new_def present_at_def ids_of_def
        example_storage_prompts example_fields t)
  show "filter (collides (prompts example_storage)
           (constructed (\<lambda>i. example_env) 0 example_incoming))
     [0..<length example_incoming] = [0, 3]"
    by (simp add: n example_constructed collides_def present_at_def ids_of_def
        example_storage_prompts example_fields t)
  show "failures (constructed (\<lambda>i. example_env) 0 example_incoming) =
     [''Failed to import prompt: Validation failed: Field '' @ quote @ ''title'' @ quote @
      '' is required'']"
    by (simp add: example_constructed failures_def)
  show "added (prompts example_storage) (constructed (\<lambda>i. example_env) 0 example_incoming) =
     [(''prompt-2'', example_prompt \<lparr> id' := ''prompt-2'', title := ''Recruiter'' \<rparr>)]"
    unfolding added_def l
    by (simp add: example_constructed is_new_def present_at_def ids_of_def
        example_storage_prompts example_fields t)
qed

theorem importData_merge_witness:
  "parse_import example_parse example_parse ''{}'' ''json'' = Inr (Parsed example_import) \<and>
   i_prompts example_import = Some example_incoming \<and>
   fst (importData example_parse example_parse (\<lambda>i. example_env) ''{}'' ''json'' True
          example_storage) =
     Inr \<lparr> imported = 1, skipped = 2,
           errors = [''Failed to import prompt: Validation failed: Field '' @ quote @
                     ''title'' @ quote @ '' is required''] \<rparr> \<and>
   prompts (snd (importData example_parse example_parse (\<lambda>i. example_env) ''{}''
          ''json'' True example_storage)) =
     [(''prompt-1'', example_prompt),
      (''prompt-2'', example_prompt \<lparr> id' := ''prompt-2'', title := ''Recruiter'' \<rparr>)]"
proof -
  let ?call = "importData example_parse example_parse (\<lambda>i. example_env) ''{}'' ''json'' True
          example_storage"
  have a: "parse_import example_parse example_parse ''{}'' ''json'' = Inr (Parsed example_import)"
    by (simp add: parse_import_def example_parse_def)
  have b: "i_prompts example_import = Some example_incoming"
    by (simp add: example_import_def)
  have c: "?call = (fst ?call, snd ?call)" by simp
  from importData_merge [OF a b c] obtain result where
    r: "fst ?call = Inr result"
    and i: "imported result = length (filter (is_new (prompts example_storage)
              (constructed (\<lambda>i. example_env) 0 example_incoming)) [0..<length example_incoming])"
    and s: "skipped result = length (filter (collides (prompts example_storage)
              (constructed (\<lambda>i. example_env) 0 example_incoming)) [0..<length example_incoming])"
    and e: "errors result = failures (constructed (\<lambda>i. example_env) 0 example_incoming)"
    and m: "prompts (snd ?call) = prompts example_storage @
              added (prompts example_storage) (constructed (\<lambda>i. example_env) 0 example_incoming)"
    by blast
  from i s e have "result = \<lparr> imported = 1, skipped = 2,
           errors = [''Failed to import prompt: Validation failed: Field '' @ quote @
                     ''title'' @ quote @ '' is required''] \<rparr>"
    by (simp add: example_turns)
  with r have r2: "fst ?call = Inr \<lparr> imported = 1, skipped = 2,
           errors = [''Failed to import prompt: Validation failed: Field '' @ quote @
                     ''title'' @ quote @ '' is required''] \<rparr>"
    by simp
  from m have m2: "prompts (snd ?call) =
     [(''prompt-1'', example_prompt),
      (''prompt-2'', example_prompt \<lparr> id' := ''prompt-2'', title := ''Recruiter'' \<rparr>)]"
    unfolding example_turns(4) by (simp add: example_storage_prompts)
  from a b r2 m2 show ?thesis
    by (intro conjI)
qed

section \<open>Properties of the tree view\<close>

subsection \<open>The three loops of \<open>buildTreeStructure\<close>\<close>

lemma cat_of_eq: "cat_of p = (if category p = [] then ''uncategorized'' else category p)"
  by (simp add: cat_of_def or_else_def)

lemma uncategorized_plain: "''uncategorized'' \<notin> set object_prototype_keys"
  by (simp add: object_prototype_keys_def)

lemma favorites_plain: "''favorites'' \<notin> set object_prototype_keys"
  by (simp add: object_prototype_keys_def)

lemma get_category_plain:
  "t_prototype t = None \<Longrightarrow>
     get_category t k =
       (case map_of (t_categories t) k of
          Some entry \<Rightarrow> Own entry
        | None \<Rightarrow> if k \<in> set object_prototype_keys then Truthy else Falsy)"
  by (simp add: get_category_def split: option.splits)

lemma map_of_Some_key: "map_of al k = Some v \<Longrightarrow> k \<in> fst ` set al"
  by (metis domI dom_map_of_conv_image_fst)

lemma keys_update_present:
  "map_of al k = Some v \<Longrightarrow> fst ` set (AList.update k w al) = fst ` set al"
  by (auto simp: dom_update dest: map_of_Some_key)

lemma place_prompt_plain:
  assumes proto: "t_prototype t = None"
    and plain: "cat_of p \<in> fst ` set (t_categories t) \<or>
                cat_of p \<notin> set object_prototype_keys"
  shows "\<exists>t1. place_prompt p t = Inr t1 \<and> t_prototype t1 = None \<and>
           fst ` set (t_categories t1) = fst ` set (t_categories t) \<and>
           t_favorites t1 = t_favorites t @ (if isFavorite p then [p] else []) \<and>
           t_uncategorized t1 =
             t_uncategorized t @
               (if cat_of p \<notin> fst ` set (t_categories t) \<and> cat_of p = ''uncategorized'' \<and>
                   \<not> isFavorite p then [p] else []) \<and>
           (\<forall>c. items_of t1 c = items_of t c @ (if cat_of p = c \<and> c \<in> fst ` set (t_categories t) then [p] else []))"
proof -
  let ?t1 = "if isFavorite p then t \<lparr> t_favorites := t_favorites t @ [p] \<rparr> else t"
  have p1: "t_prototype ?t1 = None" and c1: "t_categories ?t1 = t_categories t"
    and u1: "t_uncategorized ?t1 = t_uncategorized t"
    and f1: "t_favorites ?t1 = t_favorites t @ (if isFavorite p then [p] else [])"
    using proto by simp_all
  show ?thesis
  proof (cases "map_of (t_categories t) (cat_of p)")
    case None
    then have nk: "cat_of p \<notin> fst ` set (t_categories t)"
      by (simp add: map_of_eq_None_iff)
    with plain have cp: "cat_of p \<notin> set object_prototype_keys"
      by blast
    have g: "get_category ?t1 (cat_of p) = Falsy"
      using None cp by (simp add: get_category_plain [OF p1] c1)
    let ?r = "if cat_of p = ''uncategorized'' \<and> \<not> isFavorite p
              then ?t1 \<lparr> t_uncategorized := t_uncategorized ?t1 @ [p] \<rparr> else ?t1"
    have r: "place_prompt p t = Inr ?r"
      using g by (simp add: place_prompt_def Let_def cat_of_def)
    have "t_prototype ?r = None" using proto by simp
    moreover have "t_categories ?r = t_categories t" by simp
    moreover have "t_favorites ?r = t_favorites t @ (if isFavorite p then [p] else [])"
      by simp
    moreover have "t_uncategorized ?r = t_uncategorized t @
               (if cat_of p \<notin> fst ` set (t_categories t) \<and> cat_of p = ''uncategorized'' \<and>
                   \<not> isFavorite p then [p] else [])"
      using nk by simp
    moreover have "\<forall>c. items_of ?r c = items_of t c @
        (if cat_of p = c \<and> c \<in> fst ` set (t_categories t) then [p] else [])"
    proof
      fix c
      have "\<not> (cat_of p = c \<and> c \<in> fst ` set (t_categories t))"
        using nk by blast
      then show "items_of ?r c = items_of t c @
          (if cat_of p = c \<and> c \<in> fst ` set (t_categories t) then [p] else [])"
        by (simp add: items_of_def)
    qed
    ultimately show ?thesis using r by (metis (no_types, lifting))
  next
    case (Some entry)
    then have k: "cat_of p \<in> fst ` set (t_categories t)"
      by (rule map_of_Some_key)
    have g: "get_category ?t1 (cat_of p) = Own entry"
      using Some by (simp add: get_category_plain [OF p1] c1)
    let ?r = "?t1 \<lparr> t_categories :=
                AList.update (cat_of p) (entry \<lparr> items := items entry @ [p] \<rparr>) (t_categories ?t1) \<rparr>"
    have r: "place_prompt p t = Inr ?r"
      using g by (simp add: place_prompt_def Let_def cat_of_def)
    have "t_prototype ?r = None" using proto by simp
    moreover have "fst ` set (t_categories ?r) = fst ` set (t_categories t)"
      using Some by (simp add: keys_update_present)
    moreover have "t_favorites ?r = t_favorites t @ (if isFavorite p then [p] else [])"
      by simp
    moreover have "t_uncategorized ?r = t_uncategorized t @
               (if cat_of p \<notin> fst ` set (t_categories t) \<and> cat_of p = ''uncategorized'' \<and>
                   \<not> isFavorite p then [p] else [])"
      using k by simp
    moreover have "\<forall>c. items_of ?r c = items_of t c @
        (if cat_of p = c \<and> c \<in> fst ` set (t_categories t) then [p] else [])"
    proof
      fix c
      show "items_of ?r c = items_of t c @
          (if cat_of p = c \<and> c \<in> fst ` set (t_categories t) then [p] else [])"
      proof (cases "c = cat_of p")
        case True
        with Some k show ?thesis by (simp add: items_of_def update_conv')
      next
        case False
        then have "\<not> (cat_of p = c \<and> c \<in> fst ` set (t_categories t))" by blast
        with False show ?thesis by (simp add: items_of_def update_conv')
      qed
    qed
    ultimately show ?thesis using r by (metis (no_types, lifting))
  qed
qed

lemma place_all:
  "t_prototype t = None \<Longrightarrow>
   \<forall>p \<in> set ps. cat_of p \<in> fst ` set (t_categories t) \<or>
                  cat_of p \<notin> set object_prototype_keys \<Longrightarrow>
   \<exists>t1. forEach place_prompt ps t = Inr t1 \<and> t_prototype t1 = None \<and>
        fst ` set (t_categories t1) = fst ` set (t_categories t) \<and>
        t_favorites t1 = t_favorites t @ filter isFavorite ps \<and>
        t_uncategorized t1 =
          t_uncategorized t @
            filter (\<lambda>p. cat_of p \<notin> fst ` set (t_categories t) \<and> cat_of p = ''uncategorized'' \<and>
                         \<not> isFavorite p) ps \<and>
        (\<forall>c. items_of t1 c =
               items_of t c @ filter (\<lambda>p. cat_of p = c \<and> c \<in> fst ` set (t_categories t)) ps)"
proof (induction ps arbitrary: t)
  case Nil
  then show ?case by simp
next
  case (Cons p ps)
  from Cons.prems have pl: "cat_of p \<in> fst ` set (t_categories t) \<or>
      cat_of p \<notin> set object_prototype_keys"
    and rest0: "\<forall>q \<in> set ps. cat_of q \<in> fst ` set (t_categories t) \<or>
      cat_of q \<notin> set object_prototype_keys"
    by simp_all
  from place_prompt_plain [OF Cons.prems(1) pl] obtain t1 where
    s: "place_prompt p t = Inr t1" and s0: "t_prototype t1 = None"
    and s1: "fst ` set (t_categories t1) = fst ` set (t_categories t)"
    and s2: "t_favorites t1 = t_favorites t @ (if isFavorite p then [p] else [])"
    and s3: "t_uncategorized t1 =
             t_uncategorized t @
               (if cat_of p \<notin> fst ` set (t_categories t) \<and> cat_of p = ''uncategorized'' \<and>
                   \<not> isFavorite p then [p] else [])"
    and s4: "\<forall>c. items_of t1 c = items_of t c @
               (if cat_of p = c \<and> c \<in> fst ` set (t_categories t) then [p] else [])"
    by blast
  from rest0 s1 have rest: "\<forall>q \<in> set ps. cat_of q \<in> fst ` set (t_categories t1) \<or>
      cat_of q \<notin> set object_prototype_keys"
    by simp
  from Cons.IH [OF s0 rest] obtain t2 where
    r: "forEach place_prompt ps t1 = Inr t2" and r0: "t_prototype t2 = None"
    and r1: "fst ` set (t_categories t2) = fst ` set (t_categories t1)"
    and r2: "t_favorites t2 = t_favorites t1 @ filter isFavorite ps"
    and r3: "t_uncategorized t2 =
          t_uncategorized t1 @
            filter (\<lambda>p. cat_of p \<notin> fst ` set (t_categories t1) \<and> cat_of p = ''uncategorized'' \<and>
                         \<not> isFavorite p) ps"
    and r4: "\<forall>c. items_of t2 c =
               items_of t1 c @ filter (\<lambda>p. cat_of p = c \<and> c \<in> fst ` set (t_categories t1)) ps"
    by blast
  have a: "forEach place_prompt (p # ps) t = Inr t2"
    using s r by simp
  have b: "fst ` set (t_categories t2) = fst ` set (t_categories t)"
    using r1 s1 by simp
  have c: "t_favorites t2 = t_favorites t @ filter isFavorite (p # ps)"
    using r2 s2 by simp
  have d: "t_uncategorized t2 =
          t_uncategorized t @
            filter (\<lambda>p. cat_of p \<notin> fst ` set (t_categories t) \<and> cat_of p = ''uncategorized'' \<and>
                         \<not> isFavorite p) (p # ps)"
    using r3 s3 by (simp add: s1)
  have e: "\<forall>c. items_of t2 c =
               items_of t c @ filter (\<lambda>p. cat_of p = c \<and> c \<in> fst ` set (t_categories t)) (p # ps)"
    using r4 s4 by (simp add: s1)
  from a r0 b c d e show ?case
    by (intro exI [of _ t2] conjI)
qed

lemma set_update_subset:
  "set (AList.update k v al) \<subseteq> insert (k, v) (set al)"
  by (induction al) auto

lemma init_category_fresh:
  assumes "fresh_entries t" and "fst kv \<noteq> ''__proto__''"
  shows "fresh_entries (init_category kv t)"
    and "fst ` set (t_categories (init_category kv t)) =
           fst ` set (t_categories t) \<union> ({fst kv} - {''favorites''})"
proof -
  let ?e = "\<lparr> info = snd kv, items = [], parent = parent_path (fst kv), children = [] \<rparr>"
  show "fresh_entries (init_category kv t)"
  proof (cases "fst kv = ''favorites''")
    case True
    with assms show ?thesis by (simp add: init_category_def Let_def)
  next
    case False
    have "\<forall>x \<in> set (AList.update (fst kv) ?e (t_categories t)).
            items (snd x) = [] \<and> parent (snd x) = parent_path (fst x)"
      using assms(1) set_update_subset [of "fst kv" ?e "t_categories t"]
      by (auto simp: fresh_entries_def)
    with False assms show ?thesis
      by (simp add: init_category_def Let_def fresh_entries_def)
  qed
  show "fst ` set (t_categories (init_category kv t)) =
           fst ` set (t_categories t) \<union> ({fst kv} - {''favorites''})"
    using assms(2) by (auto simp: init_category_def Let_def dom_update)
qed

lemma init_all:
  "fresh_entries t \<Longrightarrow> ''__proto__'' \<notin> fst ` set cs \<Longrightarrow>
     fresh_entries (fold init_category cs t) \<and>
     fst ` set (t_categories (fold init_category cs t)) =
       fst ` set (t_categories t) \<union> (fst ` set cs - {''favorites''})"
proof (induction cs arbitrary: t)
  case Nil
  then show ?case by simp
next
  case (Cons kv cs)
  from Cons.prems(2) have k: "fst kv \<noteq> ''__proto__''" and r: "''__proto__'' \<notin> fst ` set cs"
    by auto
  note i = init_category_fresh [OF Cons.prems(1) k]
  from Cons.IH [OF i(1) r] show ?case
    by (auto simp: i(2))
qed

lemma link_child_fresh:
  assumes fr: "fresh_entries t"
    and pl: "\<forall>s. parentPath = Some s \<longrightarrow>
               s \<in> fst ` set (t_categories t) \<or> s \<notin> set object_prototype_keys"
  shows "\<exists>t1. link_child path parentPath t = Inr t1 \<and> fresh_entries t1 \<and>
           fst ` set (t_categories t1) = fst ` set (t_categories t)"
proof (cases parentPath)
  case None
  with fr show ?thesis by (simp add: link_child_def)
next
  case (Some pp)
  from fr have proto: "t_prototype t = None" by (simp add: fresh_entries_def)
  from pl Some have plain: "pp \<in> fst ` set (t_categories t) \<or>
      pp \<notin> set object_prototype_keys" by simp
  show ?thesis
  proof (cases "pp = []")
    case True
    with Some fr show ?thesis by (simp add: link_child_def)
  next
    case False
    show ?thesis
    proof (cases "map_of (t_categories t) pp")
      case None
      then have "pp \<notin> fst ` set (t_categories t)"
        by (simp add: map_of_eq_None_iff)
      with plain have "pp \<notin> set object_prototype_keys" by blast
      with None have "get_category t pp = Falsy"
        by (simp add: get_category_plain [OF proto])
      with Some False fr show ?thesis by (simp add: link_child_def)
    next
      case (Some entry)
      then have g: "get_category t pp = Own entry"
        by (simp add: get_category_plain [OF proto])
      from Some have mem: "(pp, entry) \<in> set (t_categories t)"
        by (rule map_of_SomeD)
      let ?e = "entry \<lparr> children := children entry @ [path] \<rparr>"
      let ?t = "t \<lparr> t_categories := AList.update pp ?e (t_categories t) \<rparr>"
      have e: "items ?e = [] \<and> parent ?e = parent_path pp"
        using fr mem by (auto simp: fresh_entries_def)
      have "\<forall>x \<in> set (AList.update pp ?e (t_categories t)).
              items (snd x) = [] \<and> parent (snd x) = parent_path (fst x)"
        using fr e set_update_subset [of pp ?e "t_categories t"]
        by (auto simp: fresh_entries_def)
      with fr have f: "fresh_entries ?t"
        by (simp add: fresh_entries_def)
      have k: "fst ` set (t_categories ?t) = fst ` set (t_categories t)"
        using Some by (simp add: keys_update_present)
      have "link_child path parentPath t = Inr ?t \<or> link_child path parentPath t = Inr t"
        using \<open>parentPath = Some pp\<close> False g by (simp add: link_child_def)
      with f k fr show ?thesis by auto
    qed
  qed
qed

lemma link_all:
  "fresh_entries t \<Longrightarrow>
   \<forall>kv \<in> set kvs. \<forall>s. parent (snd kv) = Some s \<longrightarrow>
      s \<in> fst ` set (t_categories t) \<or> s \<notin> set object_prototype_keys \<Longrightarrow>
   \<exists>t1. forEach (\<lambda>kv. link_child (fst kv) (parent (snd kv))) kvs t = Inr t1 \<and>
        fresh_entries t1 \<and> fst ` set (t_categories t1) = fst ` set (t_categories t)"
proof (induction kvs arbitrary: t)
  case Nil
  then show ?case by simp
next
  case (Cons kv kvs)
  from Cons.prems(2)
  have h: "\<forall>s. parent (snd kv) = Some s \<longrightarrow>
      s \<in> fst ` set (t_categories t) \<or> s \<notin> set object_prototype_keys"
    and r0: "\<forall>x \<in> set kvs. \<forall>s. parent (snd x) = Some s \<longrightarrow>
      s \<in> fst ` set (t_categories t) \<or> s \<notin> set object_prototype_keys"
    by simp_all
  from link_child_fresh [OF Cons.prems(1) h, of "fst kv"] obtain t1 where
    a: "link_child (fst kv) (parent (snd kv)) t = Inr t1" and b: "fresh_entries t1"
    and c: "fst ` set (t_categories t1) = fst ` set (t_categories t)"
    by blast
  from r0 c have r: "\<forall>x \<in> set kvs. \<forall>s. parent (snd x) = Some s \<longrightarrow>
      s \<in> fst ` set (t_categories t1) \<or> s \<notin> set object_prototype_keys"
    by simp
  from Cons.IH [OF b r] obtain t2 where
    d: "forEach (\<lambda>kv. link_child (fst kv) (parent (snd kv))) kvs t1 = Inr t2"
    and e: "fresh_entries t2"
    and f: "fst ` set (t_categories t2) = fst ` set (t_categories t1)"
    by blast
  from a d have "forEach (\<lambda>kv. link_child (fst kv) (parent (snd kv))) (kv # kvs) t = Inr t2"
    by simp
  with e f c show ?case by auto
qed

lemma fresh_items_of: "fresh_entries t \<Longrightarrow> items_of t c = []"
proof (cases "map_of (t_categories t) c")
  case None
  then show ?thesis by (simp add: items_of_def)
next
  case (Some entry)
  assume "fresh_entries t"
  moreover from Some have "(c, entry) \<in> set (t_categories t)" by (rule map_of_SomeD)
  ultimately have "items entry = []" by (auto simp: fresh_entries_def)
  with Some show ?thesis by (simp add: items_of_def)
qed

lemma buildTreeStructure_closed_form:
  assumes "plain_paths st"
  shows "\<exists>t. buildTreeStructure st = Inr t \<and>
     fst ` set (t_categories t) = fst ` set (categories st) - {''favorites''} \<and>
     t_favorites t = filter isFavorite (map snd (prompts st)) \<and>
     t_uncategorized t =
       filter (\<lambda>p. cat_of p \<notin> fst ` set (categories st) - {''favorites''} \<and>
                    cat_of p = ''uncategorized'' \<and> \<not> isFavorite p) (map snd (prompts st)) \<and>
     (\<forall>c. items_of t c =
        filter (\<lambda>p. cat_of p = c \<and> c \<in> fst ` set (categories st) - {''favorites''})
          (map snd (prompts st)))"
proof -
  let ?K = "fst ` set (categories st) - {''favorites''}"
  let ?tree0 = "\<lparr> t_categories = [], t_prototype = None, t_favorites = [],
                   t_uncategorized = [] \<rparr>"
  let ?tree1 = "fold init_category (categories st) ?tree0"
  from assms have np: "''__proto__'' \<notin> fst ` set (categories st)"
    and pp0: "\<forall>k \<in> fst ` set (categories st).
               case parent_path k of
                 None \<Rightarrow> True
               | Some s \<Rightarrow> s \<in> fst ` set (categories st) \<or> s \<notin> set object_prototype_keys"
    and pc0: "\<forall>p \<in> set (map snd (prompts st)).
               category p \<in> fst ` set (categories st) \<or>
               category p \<notin> set object_prototype_keys"
    by (simp_all add: plain_paths_def)
  have pp: "s \<in> fst ` set (categories st) \<or> s \<notin> set object_prototype_keys"
    if "k \<in> fst ` set (categories st)" and "parent_path k = Some s" for k s
    using pp0 that by force
  have widen: "k \<in> ?K \<or> k \<notin> set object_prototype_keys"
    if "k \<in> fst ` set (categories st) \<or> k \<notin> set object_prototype_keys" for k
    using that favorites_plain by blast
  have f0: "fresh_entries ?tree0" by (simp add: fresh_entries_def)
  from init_all [OF f0 np] have f1: "fresh_entries ?tree1"
    and k1: "fst ` set (t_categories ?tree1) = ?K"
    by simp_all
  have par: "\<forall>kv \<in> set (t_categories ?tree1). \<forall>s. parent (snd kv) = Some s \<longrightarrow>
               s \<in> fst ` set (t_categories ?tree1) \<or> s \<notin> set object_prototype_keys"
  proof (intro ballI allI impI)
    fix kv s
    assume m: "kv \<in> set (t_categories ?tree1)" and s: "parent (snd kv) = Some s"
    from m f1 have "parent (snd kv) = parent_path (fst kv)"
      by (simp add: fresh_entries_def)
    then have ps: "parent_path (fst kv) = Some s"
      using s by simp
    from m k1 have "fst kv \<in> fst ` set (categories st)" by auto
    then have "s \<in> fst ` set (categories st) \<or> s \<notin> set object_prototype_keys"
      using ps by (rule pp)
    then show "s \<in> fst ` set (t_categories ?tree1) \<or> s \<notin> set object_prototype_keys"
      unfolding k1 by (rule widen)
  qed
  from link_all [OF f1 par] obtain tree2 where
    l: "forEach (\<lambda>kv. link_child (fst kv) (parent (snd kv))) (t_categories ?tree1) ?tree1 =
          Inr tree2"
    and f2: "fresh_entries tree2" and k2: "fst ` set (t_categories tree2) = ?K"
    using k1 by auto
  from f2 have p2: "t_prototype tree2 = None" and fav2: "t_favorites tree2 = []"
    and unc2: "t_uncategorized tree2 = []"
    by (simp_all add: fresh_entries_def)
  have pc: "\<forall>p \<in> set (map snd (prompts st)).
              cat_of p \<in> fst ` set (t_categories tree2) \<or>
              cat_of p \<notin> set object_prototype_keys"
  proof
    fix p
    assume "p \<in> set (map snd (prompts st))"
    with pc0 have c: "category p \<in> fst ` set (categories st) \<or>
        category p \<notin> set object_prototype_keys"
      by blast
    show "cat_of p \<in> fst ` set (t_categories tree2) \<or>
        cat_of p \<notin> set object_prototype_keys"
    proof (cases "category p = []")
      case True
      then show ?thesis using uncategorized_plain by (simp add: cat_of_eq)
    next
      case False
      with widen [OF c] show ?thesis by (simp add: cat_of_eq k2)
    qed
  qed
  from place_all [OF p2 pc] obtain t where
    a: "forEach place_prompt (map snd (prompts st)) tree2 = Inr t"
    and b: "fst ` set (t_categories t) = fst ` set (t_categories tree2)"
    and c: "t_favorites t = t_favorites tree2 @ filter isFavorite (map snd (prompts st))"
    and d: "t_uncategorized t =
          t_uncategorized tree2 @
            filter (\<lambda>p. cat_of p \<notin> fst ` set (t_categories tree2) \<and>
                         cat_of p = ''uncategorized'' \<and> \<not> isFavorite p) (map snd (prompts st))"
    and e: "\<forall>c. items_of t c =
               items_of tree2 c @
                 filter (\<lambda>p. cat_of p = c \<and> c \<in> fst ` set (t_categories tree2))
                   (map snd (prompts st))"
    by blast
  have r: "buildTreeStructure st = Inr t"
    using l a by (simp add: buildTreeStructure_def Let_def)
  have r1: "fst ` set (t_categories t) = ?K" using b k2 by simp
  have r2: "t_favorites t = filter isFavorite (map snd (prompts st))"
    using c fav2 by simp
  have r3: "t_uncategorized t =
       filter (\<lambda>p. cat_of p \<notin> ?K \<and> cat_of p = ''uncategorized'' \<and> \<not> isFavorite p)
         (map snd (prompts st))"
    using d unc2 k2 by simp
  have r4: "\<forall>c. items_of t c =
        filter (\<lambda>p. cat_of p = c \<and> c \<in> ?K) (map snd (prompts st))"
    using e k2 by (simp add: fresh_items_of [OF f2])
  from r r1 r2 r3 r4 show ?thesis
    by (intro exI [of _ t] conjI)
qed

subsection \<open>Where the prompts are placed\<close>

text \<open>
  Claim C2, as amended. For every collection whose paths are plain (\<open>plain_paths\<close>: no
  category is stored under \<open>__proto__\<close>, and every parent path of a category and every
  category of a prompt is a stored category or is no property name of
  \<open>Object.prototype\<close>), \<open>buildTreeStructure\<close> returns a tree in which each prompt whose
  category is non-empty, is not the reserved key \<open>favorites\<close> and is a stored category is
  in that category's item list; each prompt whose category is unset and whose favorite
  flag is false is in the uncategorized bucket and in no other bucket (when no category
  is stored under the literal path \<open>uncategorized\<close>); and each prompt whose favorite flag
  is true is in the favorites bucket, besides its category placement. Nothing is stated
  for a prompt whose category names no stored category.
\<close>

theorem buildTreeStructure_placement:
  assumes "plain_paths st"
  shows "\<exists>t. buildTreeStructure st = Inr t \<and>
     (\<forall>p \<in> snd ` set (prompts st).
        (category p \<noteq> [] \<and> category p \<noteq> ''favorites'' \<and>
         category p \<in> fst ` set (categories st) \<longrightarrow>
           (\<exists>entry. map_of (t_categories t) (category p) = Some entry \<and>
                     p \<in> set (items entry))) \<and>
        (category p = [] \<and> \<not> isFavorite p \<and>
         ''uncategorized'' \<notin> fst ` set (categories st) \<longrightarrow>
           p \<in> set (t_uncategorized t) \<and> p \<notin> set (t_favorites t) \<and>
           (\<forall>c entry. map_of (t_categories t) c = Some entry \<longrightarrow> p \<notin> set (items entry))) \<and>
        (isFavorite p \<longrightarrow> p \<in> set (t_favorites t)))"
proof -
  let ?K = "fst ` set (categories st) - {''favorites''}"
  let ?ps = "map snd (prompts st)"
  from buildTreeStructure_closed_form [OF assms] obtain t where
    r: "buildTreeStructure st = Inr t"
    and k: "fst ` set (t_categories t) = ?K"
    and f: "t_favorites t = filter isFavorite ?ps"
    and u: "t_uncategorized t =
       filter (\<lambda>p. cat_of p \<notin> ?K \<and> cat_of p = ''uncategorized'' \<and> \<not> isFavorite p) ?ps"
    and i: "\<forall>c. items_of t c = filter (\<lambda>p. cat_of p = c \<and> c \<in> ?K) ?ps"
    by blast
  have "(category p \<noteq> [] \<and> category p \<noteq> ''favorites'' \<and>
         category p \<in> fst ` set (categories st) \<longrightarrow>
           (\<exists>entry. map_of (t_categories t) (category p) = Some entry \<and>
                     p \<in> set (items entry))) \<and>
        (category p = [] \<and> \<not> isFavorite p \<and>
         ''uncategorized'' \<notin> fst ` set (categories st) \<longrightarrow>
           p \<in> set (t_uncategorized t) \<and> p \<notin> set (t_favorites t) \<and>
           (\<forall>c entry. map_of (t_categories t) c = Some entry \<longrightarrow> p \<notin> set (items entry))) \<and>
        (isFavorite p \<longrightarrow> p \<in> set (t_favorites t))"
    if mem: "p \<in> snd ` set (prompts st)" for p
  proof (intro conjI impI)
    assume h: "category p \<noteq> [] \<and> category p \<noteq> ''favorites'' \<and>
         category p \<in> fst ` set (categories st)"
    then have c: "cat_of p = category p" and ck: "category p \<in> ?K"
      by (simp_all add: cat_of_eq)
    from ck k obtain entry where e: "map_of (t_categories t) (category p) = Some entry"
      by (metis domD dom_map_of_conv_image_fst)
    from i c ck mem have "p \<in> set (items_of t (category p))" by simp
    with e have "p \<in> set (items entry)" by (simp add: items_of_def)
    with e show "\<exists>entry. map_of (t_categories t) (category p) = Some entry \<and>
                     p \<in> set (items entry)"
      by blast
  next
    assume h: "category p = [] \<and> \<not> isFavorite p \<and>
         ''uncategorized'' \<notin> fst ` set (categories st)"
    then have c: "cat_of p = ''uncategorized''" and nk: "cat_of p \<notin> ?K"
      by (simp_all add: cat_of_eq)
    show "p \<in> set (t_uncategorized t)"
      using u c nk h mem by simp
    show "p \<notin> set (t_favorites t)"
      using f h by simp
    show "\<forall>c entry. map_of (t_categories t) c = Some entry \<longrightarrow> p \<notin> set (items entry)"
    proof (intro allI impI)
      fix c entry
      assume e: "map_of (t_categories t) c = Some entry"
      then have "items entry = items_of t c" by (simp add: items_of_def)
      with i have "items entry = filter (\<lambda>p. cat_of p = c \<and> c \<in> ?K) ?ps" by simp
      with nk show "p \<notin> set (items entry)" by auto
    qed
  next
    assume "isFavorite p"
    with f mem show "p \<in> set (t_favorites t)" by simp
  qed
  with r show ?thesis by blast
qed

lemma example_paths:
  "parent_path ''favorites'' = None"
  "parent_path ''linguaggi'' = None"
  "parent_path ''linguaggi/java'' = Some ''linguaggi''"
  by code_simp+

lemma example_plain: "plain_paths example_storage"
  by (simp add: plain_paths_def example_storage_def example_paths example_prompt_def
      object_prototype_keys_def)

lemma example_storage_categories:
  "fst ` set (categories example_storage) = {''favorites'', ''linguaggi'', ''linguaggi/java''}"
  by (simp add: example_storage_def)

theorem buildTreeStructure_placement_witness:
  "plain_paths example_storage \<and>
   example_prompt \<in> snd ` set (prompts example_storage) \<and>
   category example_prompt = ''linguaggi/java'' \<and> isFavorite example_prompt \<and>
   (\<exists>t. buildTreeStructure example_storage = Inr t \<and>
      (\<exists>entry. map_of (t_categories t) ''linguaggi/java'' = Some entry \<and>
         example_prompt \<in> set (items entry)) \<and>
      example_prompt \<in> set (t_favorites t))"
proof -
  have m: "example_prompt \<in> snd ` set (prompts example_storage)"
    by (simp add: example_storage_prompts)
  have "\<exists>t. buildTreeStructure example_storage = Inr t \<and>
      (\<exists>entry. map_of (t_categories t) ''linguaggi/java'' = Some entry \<and>
         example_prompt \<in> set (items entry)) \<and>
      example_prompt \<in> set (t_favorites t)"
    using buildTreeStructure_placement [OF example_plain]
    by (simp add: example_storage_prompts example_fields example_storage_categories)
  with example_plain m example_fields show ?thesis by simp
qed

theorem buildTreeStructure_counterexample:
  "buildTreeStructure lost_storage =
     Inr \<lparr> t_categories =
             [(''linguaggi'', \<lparr> info = folder ''Linguaggi'', items = [], parent = None,
                                children = [] \<rparr>)],
           t_prototype = None, t_favorites = [], t_uncategorized = [] \<rparr> \<and>
   buildTreeStructure constructor_storage = Inl TypeError"
  by (simp add: buildTreeStructure_def lost_storage_def constructor_storage_def Let_def
      init_category_def example_paths link_child_def place_prompt_def get_category_def
      or_else_def object_prototype_keys_def)

end
